theory Spec2Isabelle
  imports Complex_Main
begin

section \<open>Python values used by the trend scripts\<close>

text \<open>
  The scripts \<open>plot_occupancies.py\<close> and \<open>plot_pseudo_efficiencies.py\<close> are plain
  Python. Run numbers and bin indices are Python integers (\<open>int\<close>), counts and
  errors are Python floats, modelled here as \<open>real\<close> (rounding is not modelled),
  strings are \<open>string\<close>. Every exception the code can raise and every \<open>sys.exit\<close>
  is a value of \<open>error\<close>; a computation returns \<open>error + 'a\<close>.
\<close>

datatype error =
    SysExit int
  | IndexError
  | ZeroDivisionError
  | ValueError
  | NameError
  | KeyError
  | TypeError
  | FileNotFoundError
  | ReferenceError

text \<open>The status the interpreter exits with: the argument of \<open>sys.exit\<close>, or 1
  after an uncaught exception.\<close>

fun exit_status :: "error \<Rightarrow> int" where
  "exit_status (SysExit n) = n"
| "exit_status _ = 1"

definition ebind :: "error + 'a \<Rightarrow> ('a \<Rightarrow> error + 'b) \<Rightarrow> error + 'b" where
  "ebind m f = (case m of Inl e \<Rightarrow> Inl e | Inr x \<Rightarrow> f x)"

definition py_truediv :: "real \<Rightarrow> real \<Rightarrow> error + real" where
  "py_truediv a b = (if b = 0 then Inl ZeroDivisionError else Inr (a / b))"

definition py_sqrt :: "real \<Rightarrow> error + real" where
  "py_sqrt a = (if a < 0 then Inl ValueError else Inr (sqrt a))"

text \<open>\<open>xs[-1]\<close> and \<open>xs[i]\<close> for a non-negative \<open>i\<close>.\<close>

definition py_last :: "'a list \<Rightarrow> error + 'a" where
  "py_last xs = (case rev xs of [] \<Rightarrow> Inl IndexError | x # _ \<Rightarrow> Inr x)"

definition py_index :: "'a list \<Rightarrow> nat \<Rightarrow> error + 'a" where
  "py_index xs i = (if i < length xs then Inr (xs ! i) else Inl IndexError)"

subsection \<open>Strings\<close>

definition digit_chars :: string where
  "digit_chars = ''0123456789''"

fun str_nat :: "nat \<Rightarrow> string" where
  "str_nat n = (if n < 10 then [digit_chars ! n]
                else str_nat (n div 10) @ [digit_chars ! (n mod 10)])"

declare str_nat.simps [simp del]

text \<open>\<open>str(n)\<close> for a Python integer.\<close>

definition str_int :: "int \<Rightarrow> string" where
  "str_int k = (if k < 0 then CHR ''-'' # str_nat (nat (- k)) else str_nat (nat k))"

text \<open>\<open>sub in s\<close> for strings.\<close>

fun py_in :: "string \<Rightarrow> string \<Rightarrow> bool" where
  "py_in sub [] = (sub = [])"
| "py_in sub (c # cs) = (take (length sub) (c # cs) = sub \<or> py_in sub cs)"

text \<open>\<open>s.split(sep)\<close> for a non-empty separator (Python raises ValueError for
  an empty one).\<close>

function py_split_ne :: "string \<Rightarrow> string \<Rightarrow> string list" where
  "py_split_ne sep [] = [[]]"
| "py_split_ne sep (c # cs) =
     (if sep \<noteq> [] \<and> take (length sep) (c # cs) = sep
      then [] # py_split_ne sep (drop (length sep) (c # cs))
      else (case py_split_ne sep cs of
              [] \<Rightarrow> [[c]]
            | p # ps \<Rightarrow> (c # p) # ps))"
  by pat_completeness auto
termination
  by (relation "measure (\<lambda>(sep, s). length s)") (auto simp: neq_Nil_conv)

definition py_split :: "string \<Rightarrow> string \<Rightarrow> error + string list" where
  "py_split s sep = (if sep = [] then Inl ValueError else Inr (py_split_ne sep s))"

text \<open>\<open>s.replace(old, new)\<close> for a non-empty \<open>old\<close>: every non-overlapping
  occurrence, scanning from the left.\<close>

function py_replace :: "string \<Rightarrow> string \<Rightarrow> string \<Rightarrow> string" where
  "py_replace [] old new = []"
| "py_replace (c # cs) old new =
     (if old \<noteq> [] \<and> take (length old) (c # cs) = old
      then new @ py_replace (drop (length old) (c # cs)) old new
      else c # py_replace cs old new)"
  by pat_completeness auto
termination
  by (relation "measure (\<lambda>(s, old, new). length s)") (auto simp: neq_Nil_conv)

text \<open>\<open>int(s)\<close> on an ASCII string: surrounding whitespace is stripped, one sign
  is allowed, and the digits may be grouped by single underscores.\<close>

definition is_space :: "char \<Rightarrow> bool" where
  "is_space c = (c \<in> set [CHR '' '', CHR 0x09, CHR 0x0A, CHR 0x0B, CHR 0x0C, CHR 0x0D])"

definition is_digit :: "char \<Rightarrow> bool" where
  "is_digit c = (c \<in> set digit_chars)"

definition digit_val :: "char \<Rightarrow> nat" where
  "digit_val c = of_char c - 48"

definition py_strip :: "string \<Rightarrow> string" where
  "py_strip s = rev (dropWhile is_space (rev (dropWhile is_space s)))"

fun digits_ok :: "string \<Rightarrow> bool" where
  "digits_ok [] = False"
| "digits_ok [c] = is_digit c"
| "digits_ok (c # d # cs) =
     (is_digit c \<and> (if d = CHR ''_'' then digits_ok cs else digits_ok (d # cs)))"

definition digits_val :: "string \<Rightarrow> nat" where
  "digits_val s = foldl (\<lambda>acc c. 10 * acc + digit_val c) 0 (filter is_digit s)"

definition py_int :: "string \<Rightarrow> error + int" where
  "py_int s =
     (let t = py_strip s;
          neg = (t \<noteq> [] \<and> hd t = CHR ''-'');
          body = (if t \<noteq> [] \<and> (hd t = CHR ''-'' \<or> hd t = CHR ''+'') then tl t else t)
      in if digits_ok body
         then Inr (if neg then - int (digits_val body) else int (digits_val body))
         else Inl ValueError)"

section \<open>Shard directory of a run\<close>



section \<open>Histogram objects and regions of interest\<close>

text \<open>
  The objects read from an archive are ROOT histograms. The scripts use them only
  through the calls below, so an object is the record of what these calls return:
  \<open>InheritsFrom("TH2")\<close>, \<open>GetName()\<close>, \<open>FindBin(0)\<close>,
  \<open>ProjectionX().FindBin(0)\<close>, \<open>ProjectionY().FindBin(0)\<close>, the numbers of bins,
  \<open>Integral\<close> with two and with four bin arguments, the statistics, the bin
  contents and \<open>FindBin\<close> of the two axes.
\<close>

record histogram =
  InheritsFromTH2 :: bool
  GetName :: string
  FindBin0 :: int
  ProjectionX_FindBin0 :: int
  ProjectionY_FindBin0 :: int
  GetNbinsX :: int
  GetNbinsY :: int
  Integral1 :: "int \<Rightarrow> int \<Rightarrow> real"
  Integral2 :: "int \<Rightarrow> int \<Rightarrow> int \<Rightarrow> int \<Rightarrow> real"
  GetEntries :: real
  GetMean :: real
  GetMeanError :: real
  GetRMS :: real
  GetRMSError :: real
  GetBinContent :: "int \<Rightarrow> real"
  GetXaxis_FindBin :: "real \<Rightarrow> int"
  GetYaxis_FindBin :: "real \<Rightarrow> int"

text \<open>An entry of \<open>populated_regions\<close>: the lists under the keys \<open>'x'\<close> and
  \<open>'y'\<close>.\<close>

record roi =
  roi_x :: "real list"
  roi_y :: "real list"

type_synonym regions = "string \<rightharpoonup> roi"

definition quadrant_methods :: "string list" where
  "quadrant_methods = [''quadrant1'', ''quadrant2'', ''quadrant3'', ''quadrant4'']"

text \<open>\<open>entries_selection\<close> of \<open>plot_occupancies.py\<close>. \<open>sys.exit(0)\<close> is the
  error \<open>SysExit 0\<close>.\<close>

definition entries_selection :: "histogram \<Rightarrow> string \<Rightarrow> error + real" where
  "entries_selection h selection_type =
     (let is2D = InheritsFromTH2 h
      in if selection_type \<in> set quadrant_methods \<and> \<not> is2D then Inl (SysExit 0)
         else
           (let zero_x = (if is2D then ProjectionX_FindBin0 h else FindBin0 h);
                zero_y = (if is2D then ProjectionY_FindBin0 h else FindBin0 h)
            in if selection_type = ''negative'' then
                 (if is2D then Inr (Integral2 h 1 zero_x 1 (GetNbinsY h))
                  else Inr (Integral1 h 1 zero_x))
               else if selection_type = ''positive'' then
                 (if is2D then Inr (Integral2 h zero_x (GetNbinsX h) 1 (GetNbinsY h))
                  else Inr (Integral1 h zero_x (GetNbinsX h)))
               else if selection_type = ''quadrant1'' then
                 Inr (Integral2 h zero_x (GetNbinsX h) zero_y (GetNbinsY h))
               else if selection_type = ''quadrant2'' then
                 Inr (Integral2 h 1 zero_x zero_y (GetNbinsY h))
               else if selection_type = ''quadrant3'' then
                 Inr (Integral2 h 1 zero_x 1 zero_y)
               else if selection_type = ''quadrant4'' then
                 Inr (Integral2 h zero_x (GetNbinsX h) 1 zero_y)
               else Inl (SysExit 0)))"

section \<open>Extraction of one sample\<close>

text \<open>
  The body of the second loop over \<open>options["locations"]\<close> in
  \<open>plot_occupancies.py\<close>, one branch per method string, in the order of the
  \<open>if\<close>/\<open>elif\<close> chain. \<open>len_hours\<close> is \<open>runs_info["length"][-1]\<close>,
  \<open>temp_counts\<close> the values extracted so far for this run, and \<open>stale\<close> the
  module-level variables \<open>this_count\<close> and \<open>this_count_err\<close> as an earlier
  iteration left them (\<open>None\<close> when they are not bound yet): a method string that
  matches no branch assigns nothing.
\<close>

definition directional_methods :: "string list" where
  "directional_methods =
     [''quadrant1'', ''quadrant2'', ''quadrant3'', ''quadrant4'', ''negative'', ''positive'']"

text \<open>The \<open>hotspot_mean\<close> branch. A histogram that is not two-dimensional has no
  \<open>Integral\<close> with four bin arguments: the call raises TypeError.\<close>

definition hotspot_mean :: "regions \<Rightarrow> real \<Rightarrow> histogram \<Rightarrow> error + real \<times> real" where
  "hotspot_mean populated_regions len_hours run_object =
     (let sensor_key = py_replace (GetName run_object) ''VPClusterMapOn'' ''''
      in case populated_regions sensor_key of
           None \<Rightarrow> Inr (0, 0)
         | Some r \<Rightarrow>
             if roi_x r = [] \<or> roi_y r = [] then Inr (0, 0)
             else
               ebind (py_index (roi_x r) 0) (\<lambda>x0.
               ebind (py_index (roi_x r) 1) (\<lambda>x1.
               ebind (py_index (roi_y r) 0) (\<lambda>y0.
               ebind (py_index (roi_y r) 1) (\<lambda>y1.
                 let start_x_bin = GetXaxis_FindBin run_object x0;
                     end_x_bin = GetXaxis_FindBin run_object x1;
                     start_y_bin = GetYaxis_FindBin run_object y0;
                     end_y_bin = GetYaxis_FindBin run_object y1;
                     n_bins_in_roi = (end_x_bin - start_x_bin + 1) * (end_y_bin - start_y_bin + 1)
                 in if \<not> InheritsFromTH2 run_object then Inl TypeError
                    else
                      (let integral = Integral2 run_object start_x_bin end_x_bin start_y_bin end_y_bin
                       in if n_bins_in_roi > 0 \<and> integral > 0 then
                            (let mean_occupancy = integral / real_of_int n_bins_in_roi;
                                 mean_occupancy_err = sqrt integral / real_of_int n_bins_in_roi
                             in ebind (py_truediv mean_occupancy len_hours) (\<lambda>this_count.
                                ebind (py_truediv mean_occupancy_err len_hours) (\<lambda>this_count_err.
                                  Inr (this_count, this_count_err))))
                          else Inr (0, 0)))))))"

text \<open>The branch taken when the method string contains \<open>bin\<close>.\<close>

definition bin_method :: "real \<Rightarrow> histogram \<Rightarrow> string \<Rightarrow> real list \<Rightarrow> error + real \<times> real" where
  "bin_method len_hours run_object method temp_counts =
     ebind (py_split method ''bin'') (\<lambda>binslist.
     ebind (py_index binslist 1) (\<lambda>b1.
     ebind (py_int b1) (\<lambda>bin.
       let raw_count = GetBinContent run_object bin
       in if length binslist > 2 then
            ebind (py_index binslist 2) (\<lambda>b2.
            ebind (py_int b2) (\<lambda>ref_bin.
              let ref_count = GetBinContent run_object ref_bin
              in ebind (py_truediv raw_count ref_count) (\<lambda>this_count.
                 ebind (py_truediv 1 raw_count) (\<lambda>inv_raw.
                 ebind (py_truediv 1 ref_count) (\<lambda>inv_ref.
                 ebind (py_truediv ((inv_raw + inv_ref) * raw_count) ref_count) (\<lambda>arg.
                 ebind (py_sqrt arg) (\<lambda>this_count_err.
                   Inr (this_count, this_count_err))))))))
          else
            ebind (py_truediv raw_count len_hours) (\<lambda>this_count.
            ebind (py_last temp_counts) (\<lambda>prev.
            ebind (py_sqrt raw_count) (\<lambda>root.
            ebind (py_truediv prev root) (\<lambda>this_count_err.
              Inr (this_count, this_count_err))))))))"

definition extract_sample ::
  "regions \<Rightarrow> real \<Rightarrow> histogram \<Rightarrow> string \<Rightarrow> real list \<Rightarrow> (real \<times> real) option
   \<Rightarrow> error + real \<times> real" where
  "extract_sample populated_regions len_hours run_object method temp_counts stale =
     (if method = ''raw'' then
        (let raw_count = GetEntries run_object
         in ebind (py_truediv raw_count len_hours) (\<lambda>this_count.
            ebind (py_sqrt raw_count) (\<lambda>root.
            ebind (py_truediv root len_hours) (\<lambda>this_count_err.
              Inr (this_count, this_count_err)))))
      else if method = ''mean'' then Inr (GetMean run_object, GetMeanError run_object)
      else if method = ''RMS'' then Inr (GetRMS run_object, GetRMSError run_object)
      else if method \<in> set directional_methods then
        ebind (entries_selection run_object method) (\<lambda>raw_count.
        ebind (py_truediv raw_count len_hours) (\<lambda>this_count.
        ebind (py_last temp_counts) (\<lambda>prev.
        ebind (py_sqrt raw_count) (\<lambda>root.
        ebind (py_truediv prev root) (\<lambda>this_count_err.
          Inr (this_count, this_count_err))))))
      else if method = ''hotspot_mean'' then
        hotspot_mean populated_regions len_hours run_object
      else if py_in ''bin'' method then
        bin_method len_hours run_object method temp_counts
      else (case stale of None \<Rightarrow> Inl NameError | Some s \<Rightarrow> Inr s))"

section \<open>The run loop of \<open>plot_occupancies.py\<close>\<close>

text \<open>Module-level constants of both scripts.\<close>

definition min_run_length :: real where
  "min_run_length = 300"

definition require_offline :: bool where
  "require_offline = False"

definition publish_to_dqdb :: bool where
  "publish_to_dqdb = True"

text \<open>
  What the scripts see of the outside world for one run: whether the run-database
  file is already cached, the dictionary read from it (\<open>None\<close> when the file cannot
  be read as JSON), whether the saveset file exists before and after the creation
  request, the flags of the opened file and its objects by path. A key missing from
  the dictionary is \<open>None\<close>; the two time stamps are given as the seconds that
  \<open>time.mktime(time.strptime(\<dots>))\<close> returns, and a time stamp that does not
  parse is not told apart from a missing one.
\<close>

record run_info_dict =
  info_state :: "string option"
  info_destination :: "string option"
  info_starttime :: "real option"
  info_endtime :: "real option"

record run_env =
  info_cached :: bool
  run_info :: "run_info_dict option"
  saveset_exists :: bool
  saveset_exists_after_request :: bool
  IsZombie :: bool
  kRecovered :: bool
  Get :: "string \<Rightarrow> histogram option"

text \<open>The file-system and network effects of the admission sequence, in the order
  in which they happen.\<close>

datatype event =
    RunInfoExists int
  | RunInfoFetch int
  | SavesetExists int
  | SavesetCreateRequest int
  | SavesetOpen int

datatype reject =
    NotFinalized
  | InvalidRunInfo
  | WrongDestination
  | TooShort
  | NoData
  | CannotOpen
  | PossiblyCorrupt

datatype admission =
    Fault error
  | Reject reject
  | Admit real

text \<open>The steps of the admission sequence of \<open>plot_occupancies.py\<close>, from the
  last one to the first: each takes the events so far and either stops (a
  \<open>continue\<close> or an uncaught exception) or goes on to the next step.\<close>

definition open_saveset :: "run_env \<Rightarrow> int \<Rightarrow> real \<Rightarrow> event list \<Rightarrow> event list \<times> admission" where
  "open_saveset env run run_length evs =
     (let evs = evs @ [SavesetOpen run]
      in if kRecovered env then (evs, Reject PossiblyCorrupt)
         else (evs, Admit run_length))"

definition check_run_length :: "run_env \<Rightarrow> run_info_dict \<Rightarrow> int \<Rightarrow> event list \<Rightarrow> event list \<times> admission" where
  "check_run_length env d run evs =
     (case info_starttime d of
        None \<Rightarrow> (evs, Fault KeyError)
      | Some run_start \<Rightarrow>
          (case info_endtime d of
             None \<Rightarrow> (evs, Fault KeyError)
           | Some run_end \<Rightarrow>
               (let run_length = run_end - run_start
                in if run_length < min_run_length then (evs, Reject TooShort)
                   else open_saveset env run run_length evs)))"

definition check_saveset :: "run_env \<Rightarrow> run_info_dict \<Rightarrow> int \<Rightarrow> event list \<Rightarrow> event list \<times> admission" where
  "check_saveset env d run evs =
     (let evs = evs @ [SavesetExists run]
      in if \<not> saveset_exists env then
           (case info_starttime d of
              None \<Rightarrow> (evs, Fault KeyError)
            | Some _ \<Rightarrow>
                (let evs = evs @ [SavesetCreateRequest run, SavesetExists run]
                 in if \<not> saveset_exists_after_request env then (evs, Reject NoData)
                    else check_run_length env d run evs))
         else check_run_length env d run evs)"

definition admission_occupancies :: "run_env \<Rightarrow> int \<Rightarrow> event list \<times> admission" where
  "admission_occupancies env run =
     (let evs = (if \<not> info_cached env then [RunInfoExists run, RunInfoFetch run]
                 else [RunInfoExists run])
      in case run_info env of
           None \<Rightarrow> (evs, Fault FileNotFoundError)
         | Some d \<Rightarrow>
             (case info_state d of
                None \<Rightarrow> (evs, Reject InvalidRunInfo)
              | Some s \<Rightarrow>
                  if s = ''CREATED'' then (evs, Reject NotFinalized)
                  else if require_offline then
                    (case info_destination d of
                       None \<Rightarrow> (evs, Fault KeyError)
                     | Some dest \<Rightarrow>
                         if dest \<noteq> ''OFFLINE'' then (evs, Reject WrongDestination)
                         else check_saveset env d run evs)
                  else check_saveset env d run evs))"

text \<open>
  The admission sequence of \<open>plot_pseudo_efficiencies.py\<close>: the same checks in
  another order, with every exception caught and the run skipped.
\<close>

definition open_saveset_eff :: "run_env \<Rightarrow> int \<Rightarrow> real \<Rightarrow> event list \<Rightarrow> event list \<times> admission" where
  "open_saveset_eff env run run_length evs =
     (let evs = evs @ [SavesetOpen run]
      in if IsZombie env then (evs, Reject CannotOpen)
         else if kRecovered env then (evs, Reject PossiblyCorrupt)
         else (evs, Admit run_length))"

definition check_saveset_eff :: "run_env \<Rightarrow> int \<Rightarrow> real \<Rightarrow> event list \<Rightarrow> event list \<times> admission" where
  "check_saveset_eff env run run_length evs =
     (let evs = evs @ [SavesetExists run]
      in if \<not> saveset_exists env then
           (let evs = evs @ [SavesetCreateRequest run, SavesetExists run]
            in if \<not> saveset_exists_after_request env then (evs, Reject NoData)
               else open_saveset_eff env run run_length evs)
         else open_saveset_eff env run run_length evs)"

definition check_run_length_eff :: "run_env \<Rightarrow> run_info_dict \<Rightarrow> int \<Rightarrow> event list \<Rightarrow> event list \<times> admission" where
  "check_run_length_eff env d run evs =
     (case info_starttime d of
        None \<Rightarrow> (evs, Reject InvalidRunInfo)
      | Some run_start \<Rightarrow>
          (case info_endtime d of
             None \<Rightarrow> (evs, Reject InvalidRunInfo)
           | Some run_end \<Rightarrow>
               (let run_length = run_end - run_start
                in if run_length < min_run_length then (evs, Reject TooShort)
                   else check_saveset_eff env run run_length evs)))"

definition admission_efficiencies :: "run_env \<Rightarrow> int \<Rightarrow> event list \<times> admission" where
  "admission_efficiencies env run =
     (let evs = (if \<not> info_cached env then [RunInfoExists run, RunInfoFetch run]
                 else [RunInfoExists run])
      in case run_info env of
           None \<Rightarrow> (evs, Reject InvalidRunInfo)
         | Some d \<Rightarrow>
             if info_state d = Some ''CREATED'' then (evs, Reject NotFinalized)
             else if require_offline \<and> info_destination d \<noteq> Some ''OFFLINE''
               then (evs, Reject WrongDestination)
             else check_run_length_eff env d run evs)"

subsection \<open>Options and the accumulated series\<close>

text \<open>The keys of the options dictionary that the run loop reads. The lists under
  \<open>"counts"\<close> and \<open>"errors"\<close> are mutated by the loop and live in the state.\<close>

record options =
  opt_name :: string
  opt_type :: string
  opt_locations :: "string list"
  opt_method :: "string list"
  opt_counts :: "real list"
  opt_errors :: "real list"
  opt_y_range :: "(real \<times> real) option"

text \<open>
  The mutable state of the script: \<open>runs_info["numbers"]\<close>,
  \<open>runs_info["length"]\<close>, \<open>options["counts"]\<close>, \<open>options["errors"]\<close>, the
  module-level \<open>this_count\<close> and \<open>this_count_err\<close>, the points handed to
  \<open>save_in_dqdb\<close> (run, value, error) and the events of the admission sequences.
\<close>

record pipeline_state =
  numbers :: "int list"
  lengths :: "real list"
  counts :: "real list"
  errors :: "real list"
  this_sample :: "(real \<times> real) option"
  published :: "(int \<times> real \<times> real) list"
  events :: "event list"

definition initial_state :: "options \<Rightarrow> pipeline_state" where
  "initial_state opts =
     \<lparr>numbers = [], lengths = [], counts = opt_counts opts, errors = opt_errors opts,
      this_sample = None, published = [], events = []\<rparr>"

text \<open>The first loop over the locations: it stops at the first one that the
  archive does not hold.\<close>

fun location_not_found :: "(string \<Rightarrow> histogram option) \<Rightarrow> string list \<Rightarrow> bool" where
  "location_not_found get [] = False"
| "location_not_found get (location # rest) =
     (case get location of None \<Rightarrow> True | Some _ \<Rightarrow> location_not_found get rest)"

text \<open>The second loop: \<open>i\<close> is the index that \<open>enumerate\<close> gives, and the triple
  holds \<open>temp_counts\<close>, \<open>temp_errors\<close> and the module-level sample variables.\<close>

fun extract_loop ::
  "regions \<Rightarrow> real \<Rightarrow> (string \<Rightarrow> histogram option) \<Rightarrow> string list \<Rightarrow> nat \<Rightarrow> string list
   \<Rightarrow> real list \<times> real list \<times> (real \<times> real) option
   \<Rightarrow> error + real list \<times> real list \<times> (real \<times> real) option" where
  "extract_loop populated_regions len_hours get methods i [] acc = Inr acc"
| "extract_loop populated_regions len_hours get methods i (location # rest)
     (temp_counts, temp_errors, stale) =
     (case get location of
        None \<Rightarrow> Inl ReferenceError
      | Some run_object \<Rightarrow>
          ebind (py_index methods i) (\<lambda>method.
          ebind (extract_sample populated_regions len_hours run_object method temp_counts stale)
            (\<lambda>(this_count, this_count_err).
               extract_loop populated_regions len_hours get methods (Suc i) rest
                 (temp_counts @ [this_count], temp_errors @ [this_count_err],
                  Some (this_count, this_count_err)))))"

text \<open>The combination of the samples of one run into a point of the series. A call
  of \<open>save_in_dqdb\<close> is recorded in \<open>published\<close> and taken to return.\<close>

definition publish :: "int \<Rightarrow> real \<Rightarrow> real \<Rightarrow> pipeline_state \<Rightarrow> pipeline_state" where
  "publish run v e st =
     (if publish_to_dqdb then st\<lparr>published := published st @ [(run, v, e)]\<rparr> else st)"

definition accumulate ::
  "options \<Rightarrow> int \<Rightarrow> real list \<Rightarrow> real list \<Rightarrow> pipeline_state \<Rightarrow> error option \<times> pipeline_state" where
  "accumulate opts run temp_counts temp_errors st =
     (if opt_type opts = ''absolute'' then
        (case py_index temp_counts 0 of
           Inl e \<Rightarrow> (Some e, st)
         | Inr c0 \<Rightarrow>
             (let st = st\<lparr>counts := counts st @ [c0]\<rparr>
              in case py_index temp_errors 0 of
                   Inl e \<Rightarrow> (Some e, st)
                 | Inr e0 \<Rightarrow>
                     (None, publish run c0 e0 (st\<lparr>errors := errors st @ [e0]\<rparr>))))
      else if opt_type opts = ''ratio'' then
        (case py_index temp_counts 0 of
           Inl e \<Rightarrow> (Some e, st)
         | Inr c0 \<Rightarrow>
             if c0 = 0 then (None, st\<lparr>counts := counts st @ [0], errors := errors st @ [0]\<rparr>)
             else
               (case py_index temp_counts 1 of
                  Inl e \<Rightarrow> (Some e, st)
                | Inr c1 \<Rightarrow>
                    if c1 = 0
                    then (None, st\<lparr>counts := counts st @ [0], errors := errors st @ [0]\<rparr>)
                    else
                      (let this_ratio = c0 / (1 * c1);
                           st = st\<lparr>counts := counts st @ [this_ratio]\<rparr>
                       in case py_index temp_errors 0 of
                            Inl e \<Rightarrow> (Some e, st)
                          | Inr e0 \<Rightarrow>
                              (case py_index temp_errors 1 of
                                 Inl e \<Rightarrow> (Some e, st)
                               | Inr e1 \<Rightarrow>
                                   (let this_err = this_ratio * sqrt ((e0 / c0)\<^sup>2 + (e1 / c1)\<^sup>2)
                                    in (None, publish run this_ratio this_err
                                                (st\<lparr>errors := errors st @ [this_err]\<rparr>)))))))
      else (None, st))"

text \<open>One iteration of the loop over the runs. The first component of the result
  is the exception or \<open>sys.exit\<close> that ends the script, if any.\<close>

definition process_run ::
  "options \<Rightarrow> regions \<Rightarrow> run_env \<Rightarrow> int \<Rightarrow> pipeline_state \<Rightarrow> error option \<times> pipeline_state" where
  "process_run opts populated_regions env run st =
     (case admission_occupancies env run of (evs, a) \<Rightarrow>
        (let st = st\<lparr>events := events st @ evs\<rparr>
         in case a of
              Fault e \<Rightarrow> (Some e, st)
            | Reject _ \<Rightarrow> (None, st)
            | Admit run_length \<Rightarrow>
                (let st = st\<lparr>numbers := numbers st @ [run],
                             lengths := lengths st @ [run_length / 3600]\<rparr>
                 in if location_not_found (Get env) (opt_locations opts) then (None, st)
                    else
                      (case py_last (lengths st) of
                         Inl e \<Rightarrow> (Some e, st)
                       | Inr len_hours \<Rightarrow>
                           (case extract_loop populated_regions len_hours (Get env)
                                   (opt_method opts) 0 (opt_locations opts)
                                   ([], [], this_sample st) of
                              Inl e \<Rightarrow> (Some e, st)
                            | Inr (temp_counts, temp_errors, stale) \<Rightarrow>
                                accumulate opts run temp_counts temp_errors
                                  (st\<lparr>this_sample := stale\<rparr>))))))"

fun run_loop ::
  "options \<Rightarrow> regions \<Rightarrow> (int \<Rightarrow> run_env) \<Rightarrow> int list \<Rightarrow> pipeline_state
   \<Rightarrow> error option \<times> pipeline_state" where
  "run_loop opts populated_regions world [] st = (None, st)"
| "run_loop opts populated_regions world (run # rest) st =
     (case process_run opts populated_regions (world run) run st of
        (Some e, st') \<Rightarrow> (Some e, st')
      | (None, st') \<Rightarrow> run_loop opts populated_regions world rest st')"

section \<open>The local plot\<close>

text \<open>
  \<open>output_plot\<close> is a one-dimensional histogram with one bin per entry of
  \<open>runs_info["numbers"]\<close>; ROOT gives a histogram that is asked for no bins one bin.
  The lists hold the bins 1, 2, \<dots> in order; a write beyond the last bin does
  not change them.
\<close>

record plot =
  bin_content :: "real list"
  bin_error :: "real list"
  bin_label :: "string list"

definition TH1F :: "nat \<Rightarrow> plot" where
  "TH1F nbins =
     (let n = (if nbins = 0 then 1 else nbins)
      in \<lparr>bin_content = replicate n 0, bin_error = replicate n 0, bin_label = replicate n ''''\<rparr>)"

fun fill_loop :: "nat \<Rightarrow> real list \<Rightarrow> real list \<Rightarrow> int list \<Rightarrow> plot \<Rightarrow> error + plot" where
  "fill_loop i [] errs nums p = Inr p"
| "fill_loop i (entry # rest) errs nums p =
     (let p = p\<lparr>bin_content := (bin_content p)[i := entry]\<rparr>
      in ebind (py_index errs i) (\<lambda>err.
         let p = p\<lparr>bin_error := (bin_error p)[i := err]\<rparr>
         in ebind (py_index nums i) (\<lambda>num.
            fill_loop (Suc i) rest errs nums (p\<lparr>bin_label := (bin_label p)[i := str_int num]\<rparr>))))"

definition fill_plot :: "pipeline_state \<Rightarrow> error + plot" where
  "fill_plot st = fill_loop 0 (counts st) (errors st) (numbers st) (TH1F (length (numbers st)))"

text \<open>The setting of the y axis: \<open>SetMinimum\<close>/\<open>SetMaximum\<close> for a configured
  range, \<open>SetRangeUser\<close> otherwise. \<open>GetMinimum\<close> and \<open>GetMaximum\<close> are the
  smallest and the largest bin content.\<close>

datatype axis_setting =
    MinMax real real
  | RangeUser real real

definition y_axis_range :: "(real \<times> real) option \<Rightarrow> real list \<Rightarrow> error + axis_setting" where
  "y_axis_range y_range contents =
     (case y_range of
        Some (lo, hi) \<Rightarrow> Inr (MinMax lo hi)
      | None \<Rightarrow>
          (let output_plot_minimum = Min (set contents);
               total = sum_list contents
           in ebind (py_truediv total (1 * real (length contents))) (\<lambda>mean.
                let output_plot_maximum =
                      (if 5 * mean > Max (set contents) then Max (set contents) else mean)
                in if output_plot_minimum > 0
                   then Inr (RangeUser 0 (1.5 * output_plot_maximum))
                   else
                     (let output_plot_maximum = Max (set contents)
                      in if output_plot_maximum > 0
                         then Inr (RangeUser (1.5 * output_plot_minimum) (1.5 * output_plot_maximum))
                         else Inr (RangeUser (1.5 * output_plot_minimum) (0.5 * output_plot_maximum))))))"

section \<open>Command line and the whole script\<close>

record arguments =
  run_lower :: int
  run_upper :: int
  options_path :: string
  report_type :: string

text \<open>The argument checks of \<open>plot_occupancies.py\<close>: the lines printed and the
  arguments or the way the script ends. \<open>argv\<close> is \<open>sys.argv\<close>.\<close>

definition check_arguments :: "string list \<Rightarrow> string list \<times> (error + arguments)" where
  "check_arguments argv =
     (if length argv < 4
      then ([''Lower and upper run number ranges must be specified, as well as the options''],
            Inl (SysExit 0))
      else
        (let rt = (if length argv = 5 then argv ! 4 else ''unspecified'')
         in case py_int (argv ! 1) of
              Inl e \<Rightarrow> ([], Inl e)
            | Inr lo \<Rightarrow>
                (case py_int (argv ! 2) of
                   Inl e \<Rightarrow> ([], Inl e)
                 | Inr hi \<Rightarrow>
                     if hi < lo
                     then ([''The upper run number must be higher than the lower run number''],
                           Inl (SysExit 0))
                     else ([], Inr \<lparr>run_lower = lo, run_upper = hi,
                                     options_path = argv ! 3, report_type = rt\<rparr>))))"

text \<open>\<open>usage_and_exit\<close> and the argument checks of
  \<open>plot_pseudo_efficiencies.py\<close>.\<close>

definition usage_and_exit :: "string list \<times> error" where
  "usage_and_exit =
     ([''Usage: python3 plot_trends_publish_multi.py <run_lower> <run_upper> <options_path>'',
       ''Example: python3 plot_trends_publish_multi.py 310000 310999 tracking/publish_velo_all_sensors''],
      SysExit 1)"

definition check_arguments_eff :: "string list \<Rightarrow> string list \<times> (error + int \<times> int \<times> string)" where
  "check_arguments_eff argv =
     (if length argv < 4 then (fst usage_and_exit, Inl (snd usage_and_exit))
      else
        (case ebind (py_int (argv ! 1)) (\<lambda>lo. ebind (py_int (argv ! 2)) (\<lambda>hi. Inr (lo, hi))) of
           Inl _ \<Rightarrow> (''Run numbers must be integers.'' # fst usage_and_exit,
                     Inl (snd usage_and_exit))
         | Inr (lo, hi) \<Rightarrow>
             if hi < lo then ([''Upper run number must be >= lower run number.''], Inl (SysExit 1))
             else ([], Inr (lo, hi, argv ! 3))))"

text \<open>
  What loading the options module gives: the import or the call of \<open>options()\<close>
  fails, the dictionary has no \<open>"name"\<close>, it lacks another required key, or it is
  complete and comes with the module's \<open>populated_regions\<close> (empty when the module
  has none).
\<close>

datatype loaded =
    ImportFailed
  | NoName
  | MissingRequiredKey
  | Loaded options regions

record outcome =
  stdout :: "string list"
  raised :: "error option"
  final_state :: "pipeline_state option"
  y_axis :: "axis_setting option"

text \<open>
  The script \<open>plot_occupancies.py\<close> from its first statement to the setting of the
  y axis. Of the printed lines only those of the argument checks are recorded.
  \<open>final_state\<close> is \<open>None\<close> when the script ends before \<open>runs_info\<close> exists.
\<close>

definition main_occupancies ::
  "(string \<Rightarrow> loaded) \<Rightarrow> bool \<Rightarrow> (int \<Rightarrow> run_env) \<Rightarrow> string list \<Rightarrow> outcome" where
  "main_occupancies load_options git_key_file world argv =
     (case check_arguments argv of
        (out, Inl e) \<Rightarrow> \<lparr>stdout = out, raised = Some e, final_state = None, y_axis = None\<rparr>
      | (out, Inr args) \<Rightarrow>
          (case load_options (options_path args) of
             ImportFailed \<Rightarrow>
               \<lparr>stdout = out, raised = Some (SysExit 1), final_state = None, y_axis = None\<rparr>
           | l \<Rightarrow>
               if \<not> git_key_file
               then \<lparr>stdout = out, raised = Some FileNotFoundError, final_state = None,
                     y_axis = None\<rparr>
               else
                 (case l of
                    NoName \<Rightarrow>
                      \<lparr>stdout = out, raised = Some KeyError, final_state = None, y_axis = None\<rparr>
                  | Loaded opts populated_regions \<Rightarrow>
                      (case run_loop opts populated_regions world
                              [run_lower args .. run_upper args] (initial_state opts) of
                         (Some e, st) \<Rightarrow>
                           \<lparr>stdout = out, raised = Some e, final_state = Some st, y_axis = None\<rparr>
                       | (None, st) \<Rightarrow>
                           (case ebind (fill_plot st)
                                   (\<lambda>p. y_axis_range (opt_y_range opts) (bin_content p)) of
                              Inl e \<Rightarrow>
                                \<lparr>stdout = out, raised = Some e, final_state = Some st,
                                 y_axis = None\<rparr>
                            | Inr a \<Rightarrow>
                                \<lparr>stdout = out, raised = None, final_state = Some st,
                                 y_axis = Some a\<rparr>))
                  | _ \<Rightarrow>
                      \<lparr>stdout = out, raised = Some (SysExit 1), final_state = None,
                       y_axis = None\<rparr>)))"

section \<open>Concrete histograms, archives and options\<close>

text \<open>
  Inputs on which the theorems below are evaluated. \<open>uniform_TH2\<close> is a
  two-dimensional histogram with \<open>nx\<close> times \<open>ny\<close> bins of width \<open>w\<close>, whose axes
  start at \<open>xlo\<close> and \<open>ylo\<close> and whose bins all hold \<open>c\<close>; \<open>uniform_TH1\<close> is its
  one-dimensional counterpart. Bin 0 is the underflow and bin \<open>n + 1\<close> the overflow
  bin, both empty; an integral whose last bin lies before its first bin runs to the
  overflow bin, as in ROOT.
\<close>

definition axis_FindBin :: "int \<Rightarrow> real \<Rightarrow> real \<Rightarrow> real \<Rightarrow> int" where
  "axis_FindBin n lo w v =
     (if v < lo then 0 else if lo + w * real_of_int n \<le> v then n + 1 else \<lfloor>(v - lo) / w\<rfloor> + 1)"

definition bins_in_range :: "int \<Rightarrow> int \<Rightarrow> int \<Rightarrow> int" where
  "bins_in_range n first_bin last_bin =
     (let a = max first_bin 0;
          b = (if last_bin > n + 1 \<or> last_bin < a then n + 1 else last_bin)
      in max 0 (min b n - max a 1 + 1))"

definition uniform_TH2 :: "string \<Rightarrow> int \<Rightarrow> int \<Rightarrow> real \<Rightarrow> real \<Rightarrow> real \<Rightarrow> real \<Rightarrow> histogram" where
  "uniform_TH2 nm nx ny xlo ylo w c =
     \<lparr>InheritsFromTH2 = True,
      GetName = nm,
      FindBin0 = axis_FindBin nx xlo w 0 + (nx + 2) * axis_FindBin ny ylo w 0,
      ProjectionX_FindBin0 = axis_FindBin nx xlo w 0,
      ProjectionY_FindBin0 = axis_FindBin ny ylo w 0,
      GetNbinsX = nx,
      GetNbinsY = ny,
      Integral1 = (\<lambda>a b. 0),
      Integral2 = (\<lambda>a b c' d. c * real_of_int (bins_in_range nx a b * bins_in_range ny c' d)),
      GetEntries = c * real_of_int (nx * ny),
      GetMean = xlo + w * real_of_int nx / 2,
      GetMeanError = 0,
      GetRMS = w * real_of_int nx / 4,
      GetRMSError = 0,
      GetBinContent = (\<lambda>g. if 1 \<le> g mod (nx + 2) \<and> g mod (nx + 2) \<le> nx
                                  \<and> 1 \<le> g div (nx + 2) \<and> g div (nx + 2) \<le> ny then c else 0),
      GetXaxis_FindBin = axis_FindBin nx xlo w,
      GetYaxis_FindBin = axis_FindBin ny ylo w\<rparr>"

definition uniform_TH1 :: "string \<Rightarrow> int \<Rightarrow> real \<Rightarrow> real \<Rightarrow> real \<Rightarrow> histogram" where
  "uniform_TH1 nm nx xlo w c =
     \<lparr>InheritsFromTH2 = False,
      GetName = nm,
      FindBin0 = axis_FindBin nx xlo w 0,
      ProjectionX_FindBin0 = axis_FindBin nx xlo w 0,
      ProjectionY_FindBin0 = 1,
      GetNbinsX = nx,
      GetNbinsY = 1,
      Integral1 = (\<lambda>a b. c * real_of_int (bins_in_range nx a b)),
      Integral2 = (\<lambda>a b c' d. 0),
      GetEntries = c * real_of_int nx,
      GetMean = xlo + w * real_of_int nx / 2,
      GetMeanError = 0,
      GetRMS = w * real_of_int nx / 4,
      GetRMSError = 0,
      GetBinContent = (\<lambda>g. if 1 \<le> g \<and> g \<le> nx then c else 0),
      GetXaxis_FindBin = axis_FindBin nx xlo w,
      GetYaxis_FindBin = (\<lambda>v. 1)\<rparr>"

text \<open>A cluster map of sensor \<open>Mod10Sens2\<close> with 5 times 5 bins of width 2.5 on
  \<open>[0, 12.5)\<close>, each holding 4 entries, and a track-position histogram with 10 bins
  of width 1 on \<open>[-5, 5)\<close>, each holding 2 entries.\<close>

definition cluster_map :: histogram where
  "cluster_map = uniform_TH2 ''VPClusterMapOnMod10Sens2'' 5 5 0 0 2.5 4"

definition track_x :: histogram where
  "track_x = uniform_TH1 ''track_x'' 10 (- 5) 1 2"

definition example_regions :: regions where
  "example_regions = [''Mod10Sens2'' \<mapsto> \<lparr>roi_x = [0, 10], roi_y = [0, 10]\<rparr>]"

text \<open>A finished run of two hours whose saveset is in place and holds the given
  objects.\<close>

definition finished_run :: "(string \<Rightarrow> histogram option) \<Rightarrow> run_env" where
  "finished_run objects =
     \<lparr>info_cached = True,
      run_info = Some \<lparr>info_state = Some ''ENDED'', info_destination = Some ''OFFLINE'',
                       info_starttime = Some 0, info_endtime = Some 7200\<rparr>,
      saveset_exists = True,
      saveset_exists_after_request = True,
      IsZombie = False,
      kRecovered = False,
      Get = objects\<rparr>"

text \<open>A finished run of 100 seconds whose saveset is missing and cannot be
  created.\<close>

definition short_run_without_saveset :: run_env where
  "short_run_without_saveset =
     \<lparr>info_cached = True,
      run_info = Some \<lparr>info_state = Some ''ENDED'', info_destination = Some ''OFFLINE'',
                       info_starttime = Some 0, info_endtime = Some 100\<rparr>,
      saveset_exists = False,
      saveset_exists_after_request = False,
      IsZombie = False,
      kRecovered = False,
      Get = (\<lambda>location. None)\<rparr>"

definition absolute_options :: "string list \<Rightarrow> string list \<Rightarrow> options" where
  "absolute_options locs meths =
     \<lparr>opt_name = ''trend'', opt_type = ''absolute'', opt_locations = locs, opt_method = meths,
      opt_counts = [], opt_errors = [], opt_y_range = None\<rparr>"

definition ratio_options :: "string list \<Rightarrow> string list \<Rightarrow> options" where
  "ratio_options locs meths =
     \<lparr>opt_name = ''trend'', opt_type = ''ratio'', opt_locations = locs, opt_method = meths,
      opt_counts = [], opt_errors = [], opt_y_range = None\<rparr>"

definition empty_state :: pipeline_state where
  "empty_state =
     \<lparr>numbers = [], lengths = [], counts = [], errors = [], this_sample = None,
      published = [], events = []\<rparr>"

section \<open>Facts about the string functions\<close>

lemma digit_chars_nth_is_digit: "d < 10 \<Longrightarrow> is_digit (digit_chars ! d)"
  unfolding is_digit_def by (rule nth_mem) (simp add: digit_chars_def)

lemma digit_val_nth: "d < 10 \<Longrightarrow> digit_val (digit_chars ! d) = d"
proof -
  assume "d < 10"
  then have "d \<in> {0,1,2,3,4,5,6,7,8,9}" by auto
  then show ?thesis by (auto simp: digit_val_def digit_chars_def)
qed

lemma str_nat_digits: "list_all is_digit (str_nat n)"
proof (induction n rule: str_nat.induct)
  case (1 n)
  show ?case
  proof (cases "n < 10")
    case True
    then show ?thesis by (subst str_nat.simps) (simp add: digit_chars_nth_is_digit)
  next
    case False
    with 1 show ?thesis by (subst str_nat.simps) (simp add: digit_chars_nth_is_digit)
  qed
qed

lemma str_nat_not_Nil: "str_nat n \<noteq> []"
  by (subst str_nat.simps) simp

lemma digits_val_snoc:
  "is_digit c \<Longrightarrow> digits_val (s @ [c]) = 10 * digits_val s + digit_val c"
  by (simp add: digits_val_def)

lemma digits_val_str_nat: "digits_val (str_nat n) = n"
proof (induction n rule: str_nat.induct)
  case (1 n)
  show ?case
  proof (cases "n < 10")
    case True
    then show ?thesis
      by (subst str_nat.simps) (simp add: digits_val_def digit_chars_nth_is_digit digit_val_nth)
  next
    case False
    with 1 have "digits_val (str_nat (n div 10)) = n div 10" by simp
    with False show ?thesis
      by (subst str_nat.simps) (simp add: digits_val_snoc digit_chars_nth_is_digit digit_val_nth)
  qed
qed

lemma digits_ok_all: "s \<noteq> [] \<Longrightarrow> list_all is_digit s \<Longrightarrow> digits_ok s"
proof (induction s rule: digits_ok.induct)
  case (3 c d cs)
  then have "d \<noteq> CHR ''_''" by (auto simp: is_digit_def digit_chars_def)
  with 3 show ?case by simp
qed simp_all

lemma is_digit_not_space: "is_digit c \<Longrightarrow> \<not> is_space c"
  by (auto simp: is_digit_def is_space_def digit_chars_def)

lemma py_strip_digits: "list_all is_digit s \<Longrightarrow> py_strip s = s"
proof (cases s rule: rev_cases)
  case Nil
  then show ?thesis by (simp add: py_strip_def)
next
  case (snoc ys y)
  assume a: "list_all is_digit s"
  with snoc have y: "\<not> is_space y" by (simp add: is_digit_not_space)
  from a have h: "dropWhile is_space s = s"
    by (cases s) (simp_all add: is_digit_not_space)
  show ?thesis unfolding py_strip_def h using snoc y by simp
qed

lemma py_int_str_nat: "py_int (str_nat n) = Inr (int n)"
proof -
  have d: "list_all is_digit (str_nat n)" by (rule str_nat_digits)
  have ne: "str_nat n \<noteq> []" by (rule str_nat_not_Nil)
  from d ne have "is_digit (hd (str_nat n))" by (cases "str_nat n") simp_all
  then have hd: "hd (str_nat n) \<noteq> CHR ''-''" "hd (str_nat n) \<noteq> CHR ''+''"
    by (auto simp: is_digit_def digit_chars_def)
  show ?thesis
    by (simp add: py_int_def py_strip_digits[OF d] hd digits_ok_all[OF ne d] digits_val_str_nat)
qed



lemma py_split_ne_digits: "list_all is_digit s \<Longrightarrow> py_split_ne ''bin'' s = [s]"
proof (induction s)
  case Nil
  then show ?case by simp
next
  case (Cons c cs)
  then have c: "c \<noteq> CHR ''b''" by (auto simp: is_digit_def digit_chars_def)
  from Cons have "py_split_ne ''bin'' cs = [cs]" by simp
  with c show ?case by simp
qed

lemma py_split_bin_digits:
  "list_all is_digit s \<Longrightarrow> py_split (''bin'' @ s) ''bin'' = Inr ['''', s]"
  by (simp add: py_split_def py_split_ne_digits)

lemma py_replace_absent: "\<not> py_in old s \<Longrightarrow> py_replace s old new = s"
  by (induction s) auto

lemma py_replace_prefix:
  assumes "old \<noteq> []" "\<not> py_in old rest"
  shows "py_replace (old @ rest) old [] = rest"
proof -
  from assms(1) obtain c cs where old: "old = c # cs" by (cases old) auto
  have "py_replace ((c # cs) @ rest) (c # cs) [] = py_replace rest (c # cs) []"
    by simp
  with assms(2) show ?thesis by (simp add: old py_replace_absent)
qed

section \<open>Shard directories\<close>


section \<open>Facts about the Python primitives and the loops\<close>

lemmas py_defs = ebind_def py_index_def py_truediv_def py_sqrt_def

lemmas hist_defs =
  cluster_map_def track_x_def uniform_TH2_def uniform_TH1_def axis_FindBin_def bins_in_range_def

lemmas admission_defs =
  admission_occupancies_def check_saveset_def check_run_length_def open_saveset_def
  admission_efficiencies_def check_saveset_eff_def check_run_length_eff_def open_saveset_eff_def
  min_run_length_def require_offline_def


lemma py_last_snoc: "py_last (xs @ [x]) = Inr x"
  by (simp add: py_last_def)

lemma py_last_not_Nil: "xs \<noteq> [] \<Longrightarrow> py_last xs = Inr (last xs)"
  by (cases xs rule: rev_cases) (simp_all add: py_last_def)

lemma ebind_Inl: "ebind (Inl e) f = Inl e"
  by (simp add: ebind_def)

lemma ebind_Inr: "ebind (Inr x) f = f x"
  by (simp add: ebind_def)

lemma bin_prefixed_not_named:
  "''bin'' @ s \<noteq> ''raw''" "''bin'' @ s \<noteq> ''mean''" "''bin'' @ s \<noteq> ''RMS''"
  "''bin'' @ s \<noteq> ''hotspot_mean''" "''bin'' @ s \<notin> set directional_methods"
  "py_in ''bin'' (''bin'' @ s)"
  by (simp_all add: directional_methods_def)

lemma directional_not_named:
  "method \<in> set directional_methods \<Longrightarrow>
     method \<noteq> ''raw'' \<and> method \<noteq> ''mean'' \<and> method \<noteq> ''RMS''"
  by (auto simp: directional_methods_def)

lemma quadrant_is_directional:
  "method \<in> set quadrant_methods \<Longrightarrow> method \<in> set directional_methods"
  by (auto simp: directional_methods_def quadrant_methods_def)

text \<open>A directional method: the sample in terms of the raw count that
  \<open>entries_selection\<close> returns.\<close>

lemma extract_sample_directional:
  assumes "method \<in> set directional_methods"
  shows "extract_sample regs L h method tc s =
           ebind (entries_selection h method) (\<lambda>raw_count.
           ebind (py_truediv raw_count L) (\<lambda>this_count.
           ebind (py_last tc) (\<lambda>prev.
           ebind (py_sqrt raw_count) (\<lambda>root.
           ebind (py_truediv prev root) (\<lambda>this_count_err.
             Inr (this_count, this_count_err))))))"
  using directional_not_named[OF assms] assms by (simp add: extract_sample_def)

text \<open>A method \<open>binN\<close>: the string splits into the empty string and the digits of
  \<open>N\<close>, so the branch without a second bin is taken.\<close>

lemma extract_sample_single_bin:
  "extract_sample regs L h (''bin'' @ str_nat N) tc s =
     ebind (py_truediv (GetBinContent h (int N)) L) (\<lambda>this_count.
     ebind (py_last tc) (\<lambda>prev.
     ebind (py_sqrt (GetBinContent h (int N))) (\<lambda>root.
     ebind (py_truediv prev root) (\<lambda>this_count_err.
       Inr (this_count, this_count_err)))))"
proof -
  have split: "py_split (''bin'' @ str_nat N) ''bin'' = Inr ['''', str_nat N]"
    by (rule py_split_bin_digits) (rule str_nat_digits)
  have "extract_sample regs L h (''bin'' @ str_nat N) tc s =
          bin_method L h (''bin'' @ str_nat N) tc"
    unfolding extract_sample_def by (simp only: bin_prefixed_not_named if_False if_True)
  also have "\<dots> = ebind (py_truediv (GetBinContent h (int N)) L) (\<lambda>this_count.
     ebind (py_last tc) (\<lambda>prev.
     ebind (py_sqrt (GetBinContent h (int N))) (\<lambda>root.
     ebind (py_truediv prev root) (\<lambda>this_count_err.
       Inr (this_count, this_count_err)))))"
    unfolding bin_method_def split
    by (simp add: ebind_Inr py_index_def py_int_str_nat Let_def)
  finally show ?thesis .
qed

lemma prior_error_formula:
  assumes "tc \<noteq> []" "0 < L" "0 < raw_count"
  shows "ebind (py_truediv raw_count L) (\<lambda>this_count.
         ebind (py_last tc) (\<lambda>prev.
         ebind (py_sqrt raw_count) (\<lambda>root.
         ebind (py_truediv prev root) (\<lambda>this_count_err.
           Inr (this_count, this_count_err)))))
         = Inr (raw_count / L, last tc / sqrt raw_count)"
  using assms by (simp add: py_defs py_last_not_Nil)


text \<open>The loop over the locations, cut in two.\<close>

lemma extract_loop_append:
  "extract_loop regs L get methods i (pre @ post) acc =
     ebind (extract_loop regs L get methods i pre acc)
       (\<lambda>acc'. extract_loop regs L get methods (i + length pre) post acc')"
proof (induction pre arbitrary: i acc)
  case Nil
  show ?case by (simp add: ebind_Inr)
next
  case (Cons location pre)
  obtain tc te s where acc: "acc = (tc, te, s)" by (cases acc)
  show ?case
  proof (cases "get location")
    case None
    then show ?thesis by (simp add: acc ebind_Inl)
  next
    case (Some h)
    show ?thesis
    proof (cases "py_index methods i")
      case (Inl e)
      with Some show ?thesis by (simp add: acc ebind_def)
    next
      case (Inr m)
      show ?thesis
      proof (cases "extract_sample regs L h m tc s")
        case (Inl e)
        with Some Inr show ?thesis by (simp add: acc ebind_def)
      next
        case sample: (Inr ce)
        obtain c e where ce: "ce = (c, e)" by (cases ce)
        from Some Inr sample ce Cons.IH[of "Suc i"] show ?thesis
          by (simp add: acc ebind_Inr)
      qed
    qed
  qed
qed

lemma extract_loop_length:
  "extract_loop regs L get methods i locs (tc, te, s) = Inr (tc', te', s') \<Longrightarrow>
     length tc' = length tc + length locs \<and> length te' = length te + length locs"
proof (induction locs arbitrary: i tc te s)
  case Nil
  then show ?case by simp
next
  case (Cons location locs)
  from Cons.prems obtain h where h: "get location = Some h"
    by (cases "get location") simp_all
  from Cons.prems h obtain m where m: "py_index methods i = Inr m"
    by (cases "py_index methods i") (simp_all add: ebind_def)
  from Cons.prems h m obtain c e where ce: "extract_sample regs L h m tc s = Inr (c, e)"
    by (cases "extract_sample regs L h m tc s") (auto simp: ebind_def)
  from Cons.prems h m ce
  have "extract_loop regs L get methods (Suc i) locs (tc @ [c], te @ [e], Some (c, e))
          = Inr (tc', te', s')"
    by (simp add: ebind_Inr)
  from Cons.IH[OF this] show ?case by simp
qed

lemma extract_loop_single:
  assumes "get location = Some h" "py_index methods i = Inr m"
  shows "extract_loop regs L get methods i [location] (tc, te, s) =
           ebind (extract_sample regs L h m tc s)
             (\<lambda>(c, e). Inr (tc @ [c], te @ [e], Some (c, e)))"
  using assms by (cases "extract_sample regs L h m tc s") (auto simp: ebind_def)

text \<open>An exception or exit in one run ends the loop over the runs: the runs after it
  are not processed.\<close>

lemma run_loop_abort:
  "process_run opts regs (world run) run st = (Some e, st') \<Longrightarrow>
     run_loop opts regs world (run # rest) st = (Some e, st')"
  by simp

lemma run_loop_continue:
  "process_run opts regs (world run) run st = (None, st') \<Longrightarrow>
     run_loop opts regs world (run # rest) st = run_loop opts regs world rest st'"
  by simp

text \<open>An admitted run is at least \<open>min_run_length\<close> seconds long.\<close>

lemma admitted_run_length:
  "admission_occupancies env run = (evs, Admit run_length) \<Longrightarrow> min_run_length \<le> run_length"
  by (auto simp: admission_occupancies_def check_saveset_def check_run_length_def
      open_saveset_def Let_def require_offline_def split: option.splits if_splits)

lemma sqrt_100: "sqrt 100 = 10"
  by (rule real_sqrt_unique) simp_all

lemma sqrt_4: "sqrt 4 = 2"
  by (rule real_sqrt_unique) simp_all

lemma str_nat_8: "str_nat 8 = ''8''"
  by (simp add: str_nat.simps digit_chars_def)

text \<open>The two example histograms under the calls the scripts make.\<close>

lemma cluster_map_raw: "GetEntries cluster_map = 100"
  by (simp add: hist_defs)

lemma cluster_map_quadrant1: "entries_selection cluster_map ''quadrant1'' = Inr 100"
  by (simp add: entries_selection_def hist_defs quadrant_methods_def)

lemma cluster_map_bin8: "GetBinContent cluster_map 8 = 4"
  by (simp add: hist_defs)

lemma extract_sample_raw_cluster_map:
  "extract_sample regs 2 cluster_map ''raw'' tc s = Inr (50, 5)"
  by (simp add: extract_sample_def cluster_map_raw py_defs sqrt_100)

text \<open>The axes of the example histograms are monotone, and a region with ordered
  coordinates on monotone axes holds at least one bin.\<close>

lemma axis_FindBin_mono:
  assumes w: "0 < w" and n: "0 \<le> n"
  shows "mono (axis_FindBin n lo w)"
proof (rule monoI)
  fix u v :: real
  assume uv: "u \<le> v"
  show "axis_FindBin n lo w u \<le> axis_FindBin n lo w v"
  proof (cases "u < lo")
    case True
    have "0 \<le> axis_FindBin n lo w v"
    proof (cases "v < lo")
      case True then show ?thesis by (simp add: axis_FindBin_def)
    next
      case False
      then have "0 \<le> (v - lo) / w" using w by simp
      then have "0 \<le> \<lfloor>(v - lo) / w\<rfloor>" by simp
      with False n show ?thesis by (simp add: axis_FindBin_def)
    qed
    with True show ?thesis by (simp add: axis_FindBin_def)
  next
    case False
    with uv have v: "\<not> v < lo" by simp
    show ?thesis
    proof (cases "lo + w * real_of_int n \<le> u")
      case True
      with uv have "lo + w * real_of_int n \<le> v" by simp
      with True False v show ?thesis by (simp add: axis_FindBin_def)
    next
      case inside: False
      then have "(u - lo) / w < real_of_int n" using w by (simp add: field_simps)
      then have un: "\<lfloor>(u - lo) / w\<rfloor> < n" by (simp add: floor_less_iff)
      show ?thesis
      proof (cases "lo + w * real_of_int n \<le> v")
        case True
        with inside False v un show ?thesis by (simp add: axis_FindBin_def)
      next
        case False
        from uv w have "(u - lo) / w \<le> (v - lo) / w" by (simp add: divide_right_mono)
        then have "\<lfloor>(u - lo) / w\<rfloor> \<le> \<lfloor>(v - lo) / w\<rfloor>" by (rule floor_mono)
        with inside False \<open>\<not> u < lo\<close> v show ?thesis by (simp add: axis_FindBin_def)
      qed
    qed
  qed
qed

lemma ordered_region_has_bins:
  assumes "mono (fx :: real \<Rightarrow> int)" "mono (fy :: real \<Rightarrow> int)" "x0 \<le> x1" "y0 \<le> y1"
  shows "0 < (fx x1 - fx x0 + 1) * (fy y1 - fy y0 + 1)"
proof -
  from assms have "fx x0 \<le> fx x1" "fy y0 \<le> fy y1" by (auto dest: monoD)
  then have "0 < fx x1 - fx x0 + 1" "0 < fy y1 - fy y0 + 1" by simp_all
  then show ?thesis by (rule mult_pos_pos)
qed

section \<open>The error of directional and single-bin samples\<close>

text \<open>
  Claim C1. In the loop over the locations of one run, let the locations before the
  current one be extracted already, with values \<open>temp_counts\<close>, and let there be at
  least one of them. If the method of the current location is one of
  \<open>quadrant1\<close>, \<dots>, \<open>quadrant4\<close>, \<open>negative\<close>, \<open>positive\<close> and
  \<open>entries_selection\<close> returns the raw count, or the method is \<open>binN\<close> and the raw
  count is the content of bin \<open>N\<close>, and the raw count is positive, then the loop
  extracts the sample whose value is the raw count divided by the run length and
  whose error is the value of the previously extracted sample divided by the square
  root of the raw count.
\<close>

theorem prior_sample_error:
  assumes earlier: "extract_loop regs L get methods 0 earlier ([], [], stale)
                      = Inr (temp_counts, temp_errors, stale')"
    and some_earlier: "earlier \<noteq> []"
    and object: "get location = Some run_object"
    and method_at: "py_index methods (length earlier) = Inr method"
    and run_length: "0 < L"
    and raw: "(method \<in> set directional_methods
                \<and> entries_selection run_object method = Inr raw_count)
              \<or> (method = ''bin'' @ str_nat N
                \<and> GetBinContent run_object (int N) = raw_count)"
    and positive: "0 < raw_count"
  shows "temp_counts \<noteq> []
         \<and> extract_loop regs L get methods 0 (earlier @ [location]) ([], [], stale)
           = Inr (temp_counts @ [raw_count / L],
                  temp_errors @ [last temp_counts / sqrt raw_count],
                  Some (raw_count / L, last temp_counts / sqrt raw_count))"
proof -
  from extract_loop_length[OF earlier] some_earlier have tc: "temp_counts \<noteq> []"
    by auto
  have sample: "extract_sample regs L run_object method temp_counts stale'
                  = Inr (raw_count / L, last temp_counts / sqrt raw_count)"
  proof -
    from raw consider
        (directional) "method \<in> set directional_methods"
                      "entries_selection run_object method = Inr raw_count"
      | (single_bin) "method = ''bin'' @ str_nat N"
                     "GetBinContent run_object (int N) = raw_count"
      by blast
    then show ?thesis
    proof cases
      case directional
      show ?thesis
        unfolding extract_sample_directional[OF directional(1)] directional(2) ebind_Inr
        by (rule prior_error_formula[OF tc run_length positive])
    next
      case single_bin
      show ?thesis
        unfolding single_bin(1) extract_sample_single_bin
        using prior_error_formula[OF tc run_length positive] single_bin(2) by simp
    qed
  qed
  have "extract_loop regs L get methods 0 (earlier @ [location]) ([], [], stale)
          = extract_loop regs L get methods (length earlier) [location]
              (temp_counts, temp_errors, stale')"
    by (simp add: extract_loop_append earlier ebind_Inr)
  also have "\<dots> = Inr (temp_counts @ [raw_count / L],
                  temp_errors @ [last temp_counts / sqrt raw_count],
                  Some (raw_count / L, last temp_counts / sqrt raw_count))"
    using object method_at by (simp add: extract_loop_single sample ebind_Inr)
  finally show ?thesis using tc by simp
qed

theorem prior_sample_error_witness:
  "extract_loop example_regions 2 [''Velo/map'' \<mapsto> cluster_map] [''raw'', ''quadrant1''] 0
     ([''Velo/map''] @ [''Velo/map'']) ([], [], None)
     = Inr ([50, 50], [5, 5], Some (50, 5))
   \<and> extract_loop example_regions 2 [''Velo/map'' \<mapsto> cluster_map] [''raw'', ''bin8''] 0
     ([''Velo/map''] @ [''Velo/map'']) ([], [], None)
     = Inr ([50, 2], [5, 25], Some (2, 25))"
proof -
  let ?get = "[''Velo/map'' \<mapsto> cluster_map]"
  have object: "?get ''Velo/map'' = Some cluster_map" by simp
  have some_earlier: "[''Velo/map''] \<noteq> []" by simp
  have run_length: "(0::real) < 2" by simp
  have earlier1: "extract_loop example_regions 2 ?get [''raw'', ''quadrant1''] 0 [''Velo/map'']
                    ([], [], None) = Inr ([50], [5], Some (50, 5))"
    by (simp add: py_index_def ebind_Inr extract_sample_raw_cluster_map)
  have method1: "py_index [''raw'', ''quadrant1''] (length [''Velo/map'']) = Inr ''quadrant1''"
    by (simp add: py_index_def)
  have raw1: "(''quadrant1'' \<in> set directional_methods
                \<and> entries_selection cluster_map ''quadrant1'' = Inr 100)
              \<or> (''quadrant1'' = ''bin'' @ str_nat 0 \<and> GetBinContent cluster_map (int 0) = 100)"
    by (simp add: directional_methods_def cluster_map_quadrant1)
  have positive1: "(0::real) < 100" by simp
  have earlier2: "extract_loop example_regions 2 ?get [''raw'', ''bin8''] 0 [''Velo/map'']
                    ([], [], None) = Inr ([50], [5], Some (50, 5))"
    by (simp add: py_index_def ebind_Inr extract_sample_raw_cluster_map)
  have method2: "py_index [''raw'', ''bin8''] (length [''Velo/map'']) = Inr ''bin8''"
    by (simp add: py_index_def)
  have raw2: "(''bin8'' \<in> set directional_methods
                \<and> entries_selection cluster_map ''bin8'' = Inr 4)
              \<or> (''bin8'' = ''bin'' @ str_nat 8 \<and> GetBinContent cluster_map (int 8) = 4)"
    by (simp add: str_nat_8 cluster_map_bin8)
  have positive2: "(0::real) < 4" by simp
  from prior_sample_error[OF earlier1 some_earlier object method1 run_length raw1 positive1]
       prior_sample_error[OF earlier2 some_earlier object method2 run_length raw2 positive2]
  show ?thesis by (simp add: sqrt_100 sqrt_4)
qed

section \<open>The first location of a run\<close>



section \<open>Ratio points\<close>

text \<open>
  Claim C2. For a run of a series of type \<open>ratio\<close> with samples
  \<open>(v0, e0)\<close> and \<open>(v1, e1)\<close>: if \<open>v0\<close> or \<open>v1\<close> is zero, the point
  \<open>(0, 0)\<close> is appended to the counts and errors (so the run keeps its place on the
  axis) and nothing is published; otherwise the value \<open>v0 / v1\<close> with error
  \<open>value * sqrt ((e0 / v0)\<^sup>2 + (e1 / v1)\<^sup>2)\<close> is appended and published.
\<close>

theorem ratio_combination:
  assumes ratio: "opt_type opts = ''ratio''"
    and samples: "temp_counts = v0 # v1 # more_counts" "temp_errors = e0 # e1 # more_errors"
  shows "accumulate opts run temp_counts temp_errors st =
           (if v0 = 0 \<or> v1 = 0
            then (None, st\<lparr>counts := counts st @ [0], errors := errors st @ [0]\<rparr>)
            else (None, st\<lparr>counts := counts st @ [v0 / v1],
                            errors := errors st @ [v0 / v1 * sqrt ((e0 / v0)\<^sup>2 + (e1 / v1)\<^sup>2)],
                            published := published st @
                              [(run, v0 / v1, v0 / v1 * sqrt ((e0 / v0)\<^sup>2 + (e1 / v1)\<^sup>2))]\<rparr>))
         \<and> (if v0 = 0 \<or> v1 = 0
            then published (snd (accumulate opts run temp_counts temp_errors st)) = published st
            else published (snd (accumulate opts run temp_counts temp_errors st)) \<noteq> published st)
         \<and> length (counts (snd (accumulate opts run temp_counts temp_errors st)))
             = Suc (length (counts st))"
proof -
  have not_absolute: "opt_type opts \<noteq> ''absolute''" using ratio by simp
  have eq: "accumulate opts run temp_counts temp_errors st =
           (if v0 = 0 \<or> v1 = 0
            then (None, st\<lparr>counts := counts st @ [0], errors := errors st @ [0]\<rparr>)
            else (None, st\<lparr>counts := counts st @ [v0 / v1],
                            errors := errors st @ [v0 / v1 * sqrt ((e0 / v0)\<^sup>2 + (e1 / v1)\<^sup>2)],
                            published := published st @
                              [(run, v0 / v1, v0 / v1 * sqrt ((e0 / v0)\<^sup>2 + (e1 / v1)\<^sup>2))]\<rparr>))"
    unfolding accumulate_def samples
    by (simp add: ratio py_index_def publish_def publish_to_dqdb_def Let_def)
  show ?thesis unfolding eq by simp
qed

lemma sqrt_200th_bounds: "0.0707 < sqrt (1 / 200)" "sqrt (1 / 200) < 0.07075"
proof -
  show "0.0707 < sqrt (1 / 200)"
    by (rule real_less_rsqrt) (simp add: power2_eq_square)
  show "sqrt (1 / 200) < 0.07075"
    by (rule real_less_lsqrt) (simp_all add: power2_eq_square)
qed

theorem ratio_combination_witness:
  "accumulate (ratio_options [''a'', ''b''] [''raw'', ''raw'']) 7 [4, 2] [0.2, 0.1] empty_state
     = (None, empty_state\<lparr>counts := [2], errors := [2 * sqrt (0.0025 + 0.0025)],
                          published := [(7, 2, 2 * sqrt (0.0025 + 0.0025))]\<rparr>)
   \<and> 0.1414 < 2 * sqrt (0.0025 + 0.0025) \<and> 2 * sqrt (0.0025 + 0.0025) < 0.1415
   \<and> accumulate (ratio_options [''a'', ''b''] [''raw'', ''raw'']) 7 [0, 5] [0, 1] empty_state
     = (None, empty_state\<lparr>counts := [0], errors := [0]\<rparr>)
   \<and> accumulate (ratio_options [''a'', ''b''] [''raw'', ''raw'']) 7 [5, 0] [1, 0] empty_state
     = (None, empty_state\<lparr>counts := [0], errors := [0]\<rparr>)"
proof -
  have ratio: "opt_type (ratio_options [''a'', ''b''] [''raw'', ''raw'']) = ''ratio''"
    by (simp add: ratio_options_def)
  have s1: "[4, 2] = (4::real) # 2 # []" "[0.2, 0.1] = (0.2::real) # 0.1 # []" by simp_all
  have s2: "[0, 5] = (0::real) # 5 # []" "[0, 1] = (0::real) # 1 # []" by simp_all
  have s3: "[5, 0] = (5::real) # 0 # []" "[1, 0] = (1::real) # 0 # []" by simp_all
  have sum_eq: "(0.0025::real) + 0.0025 = 1 / 200" by simp
  have err_eq: "((0.2::real) / 4)\<^sup>2 + (0.1 / 2)\<^sup>2 = 1 / 200"
    by (simp add: power2_eq_square)
  from ratio_combination[OF ratio s1, of 7 empty_state]
       ratio_combination[OF ratio s2, of 7 empty_state]
       ratio_combination[OF ratio s3, of 7 empty_state]
       sqrt_200th_bounds
  show ?thesis
    unfolding sum_eq err_eq by (simp add: empty_state_def)
qed

section \<open>The range of the y axis\<close>

text \<open>
  Claim C7. Without a configured \<open>y_range\<close>, let \<open>mean\<close> be the mean of the bin
  contents and \<open>max\<close> the largest one. The working maximum is \<open>max\<close> when
  \<open>5 * mean > max\<close> and \<open>mean\<close> otherwise, and when the smallest bin content is
  positive the axis is set to the range from 0 to 1.5 times the working maximum.
  The contents \<open>[1, 1, 1, 1, 10]\<close> give the range from 0 to 15.
\<close>

theorem y_axis_range_heuristic:
  assumes bins: "contents \<noteq> []"
    and minimum: "0 < Min (set contents)"
  shows "y_axis_range None contents =
           Inr (RangeUser 0
             (1.5 * (if 5 * (sum_list contents / real (length contents)) > Max (set contents)
                     then Max (set contents)
                     else sum_list contents / real (length contents))))"
  using assms by (simp add: y_axis_range_def py_truediv_def ebind_Inr Let_def)

theorem y_axis_range_heuristic_witness:
  "y_axis_range None [1, 1, 1, 1, 10] = Inr (RangeUser 0 15)
   \<and> sum_list [1, 1, 1, 1, 10 :: real] / real (length [1, 1, 1, 1, 10 :: real]) = 2.8
   \<and> fill_plot (empty_state\<lparr>numbers := [1, 2, 3, 4, 5], counts := [1, 1, 1, 1, 10],
                             errors := [0, 0, 0, 0, 0]\<rparr>)
     = Inr \<lparr>bin_content = [1, 1, 1, 1, 10], bin_error = [0, 0, 0, 0, 0],
            bin_label = [''1'', ''2'', ''3'', ''4'', ''5'']\<rparr>"
proof -
  have bins: "[1, 1, 1, 1, 10 :: real] \<noteq> []" by simp
  have minimum: "0 < Min (set [1, 1, 1, 1, 10 :: real])" by simp
  have range: "y_axis_range None [1, 1, 1, 1, 10] = Inr (RangeUser 0 15)"
    using y_axis_range_heuristic[OF bins minimum] by simp
  have fill: "fill_plot (empty_state\<lparr>numbers := [1, 2, 3, 4, 5], counts := [1, 1, 1, 1, 10],
                             errors := [0, 0, 0, 0, 0]\<rparr>)
     = Inr \<lparr>bin_content = [1, 1, 1, 1, 10], bin_error = [0, 0, 0, 0, 0],
            bin_label = [''1'', ''2'', ''3'', ''4'', ''5'']\<rparr>"
    by (simp add: fill_plot_def TH1F_def empty_state_def py_defs str_int_def str_nat.simps
        digit_chars_def)
  from range fill show ?thesis by simp
qed

section \<open>The hotspot mean\<close>

text \<open>
  Claim C6. For a two-dimensional object and a run of \<open>L\<close> hours, let the sensor
  key be the name of the object without \<open>VPClusterMapOn\<close> (for a name that starts
  with it and does not hold it again, the rest of the name). The method
  \<open>hotspot_mean\<close> returns \<open>(0, 0)\<close>, and raises nothing, when no region is
  registered under the key, when the region is empty (its \<open>x\<close> or its \<open>y\<close> list
  is empty, or the rectangle of bins between its coordinates holds no bin), or when
  the integral over the rectangle is not positive. Otherwise it returns the integral
  divided by the number of bins and by \<open>L\<close>, with the error
  \<open>sqrt integral\<close> divided by the number of bins and by \<open>L\<close>. A region whose
  coordinates are given in ascending order holds at least one bin, so that for it
  only the sign of the integral decides.
\<close>

theorem hotspot_mean_value:
  assumes two_dimensional: "InheritsFromTH2 run_object"
    and run_length: "0 < L"
    and key: "sensor_key = py_replace (GetName run_object) ''VPClusterMapOn'' ''''"
  shows "(regs sensor_key = None \<longrightarrow> hotspot_mean regs L run_object = Inr (0, 0))
       \<and> (\<forall>r. regs sensor_key = Some r \<and> (roi_x r = [] \<or> roi_y r = [])
               \<longrightarrow> hotspot_mean regs L run_object = Inr (0, 0))
       \<and> (\<forall>r x0 x1 xs y0 y1 ys start_x_bin end_x_bin start_y_bin end_y_bin n_bins integral.
             regs sensor_key = Some r \<and> roi_x r = x0 # x1 # xs \<and> roi_y r = y0 # y1 # ys
             \<and> start_x_bin = GetXaxis_FindBin run_object x0
             \<and> end_x_bin = GetXaxis_FindBin run_object x1
             \<and> start_y_bin = GetYaxis_FindBin run_object y0
             \<and> end_y_bin = GetYaxis_FindBin run_object y1
             \<and> n_bins = (end_x_bin - start_x_bin + 1) * (end_y_bin - start_y_bin + 1)
             \<and> integral = Integral2 run_object start_x_bin end_x_bin start_y_bin end_y_bin
             \<longrightarrow> hotspot_mean regs L run_object =
                   (if n_bins \<le> 0 \<or> integral \<le> 0 then Inr (0, 0)
                    else Inr (integral / real_of_int n_bins / L,
                              sqrt integral / real_of_int n_bins / L))
                 \<and> (x0 \<le> x1 \<and> y0 \<le> y1 \<and> mono (GetXaxis_FindBin run_object)
                    \<and> mono (GetYaxis_FindBin run_object)
                    \<longrightarrow> 0 < n_bins
                        \<and> hotspot_mean regs L run_object =
                            (if integral \<le> 0 then Inr (0, 0)
                             else Inr (integral / real_of_int n_bins / L,
                                       sqrt integral / real_of_int n_bins / L))))
       \<and> (\<forall>rest. GetName run_object = ''VPClusterMapOn'' @ rest
                  \<and> \<not> py_in ''VPClusterMapOn'' rest
               \<longrightarrow> sensor_key = rest)"
proof -
  have unregistered: "hotspot_mean regs L run_object = Inr (0, 0)"
    if "regs sensor_key = None"
    using that by (simp add: hotspot_mean_def key)
  have undefined_region: "hotspot_mean regs L run_object = Inr (0, 0)"
    if "regs sensor_key = Some r \<and> (roi_x r = [] \<or> roi_y r = [])" for r
    using that by (auto simp: hotspot_mean_def key)
  have region: "hotspot_mean regs L run_object =
          (if n_bins \<le> 0 \<or> integral \<le> 0 then Inr (0, 0)
           else Inr (integral / real_of_int n_bins / L, sqrt integral / real_of_int n_bins / L))"
    if "regs sensor_key = Some r \<and> roi_x r = x0 # x1 # xs \<and> roi_y r = y0 # y1 # ys
             \<and> start_x_bin = GetXaxis_FindBin run_object x0
             \<and> end_x_bin = GetXaxis_FindBin run_object x1
             \<and> start_y_bin = GetYaxis_FindBin run_object y0
             \<and> end_y_bin = GetYaxis_FindBin run_object y1
             \<and> n_bins = (end_x_bin - start_x_bin + 1) * (end_y_bin - start_y_bin + 1)
             \<and> integral = Integral2 run_object start_x_bin end_x_bin start_y_bin end_y_bin"
    for r x0 x1 xs y0 y1 ys start_x_bin end_x_bin start_y_bin end_y_bin n_bins integral
  proof -
    from run_length have L: "L \<noteq> 0" by simp
    from that two_dimensional L show ?thesis
      by (simp add: hotspot_mean_def key py_index_def py_truediv_def ebind_Inr Let_def not_le)
  qed
  have ordered: "0 < n_bins
          \<and> hotspot_mean regs L run_object =
              (if integral \<le> 0 then Inr (0, 0)
               else Inr (integral / real_of_int n_bins / L, sqrt integral / real_of_int n_bins / L))"
    if a: "regs sensor_key = Some r \<and> roi_x r = x0 # x1 # xs \<and> roi_y r = y0 # y1 # ys
             \<and> start_x_bin = GetXaxis_FindBin run_object x0
             \<and> end_x_bin = GetXaxis_FindBin run_object x1
             \<and> start_y_bin = GetYaxis_FindBin run_object y0
             \<and> end_y_bin = GetYaxis_FindBin run_object y1
             \<and> n_bins = (end_x_bin - start_x_bin + 1) * (end_y_bin - start_y_bin + 1)
             \<and> integral = Integral2 run_object start_x_bin end_x_bin start_y_bin end_y_bin"
      and b: "x0 \<le> x1 \<and> y0 \<le> y1 \<and> mono (GetXaxis_FindBin run_object)
                \<and> mono (GetYaxis_FindBin run_object)"
    for r x0 x1 xs y0 y1 ys start_x_bin end_x_bin start_y_bin end_y_bin n_bins integral
  proof -
    from a b have n: "0 < n_bins"
      using ordered_region_has_bins[of "GetXaxis_FindBin run_object"
              "GetYaxis_FindBin run_object" x0 x1 y0 y1]
      by simp
    with region[OF a] show ?thesis by simp
  qed
  show ?thesis
  proof (intro conjI allI impI)
    assume "regs sensor_key = None"
    then show "hotspot_mean regs L run_object = Inr (0, 0)" by (rule unregistered)
  next
    fix r
    assume "regs sensor_key = Some r \<and> (roi_x r = [] \<or> roi_y r = [])"
    then show "hotspot_mean regs L run_object = Inr (0, 0)" by (rule undefined_region)
  next
    fix r x0 x1 xs y0 y1 ys start_x_bin end_x_bin start_y_bin end_y_bin n_bins integral
    assume a: "regs sensor_key = Some r \<and> roi_x r = x0 # x1 # xs \<and> roi_y r = y0 # y1 # ys
             \<and> start_x_bin = GetXaxis_FindBin run_object x0
             \<and> end_x_bin = GetXaxis_FindBin run_object x1
             \<and> start_y_bin = GetYaxis_FindBin run_object y0
             \<and> end_y_bin = GetYaxis_FindBin run_object y1
             \<and> n_bins = (end_x_bin - start_x_bin + 1) * (end_y_bin - start_y_bin + 1)
             \<and> integral = Integral2 run_object start_x_bin end_x_bin start_y_bin end_y_bin"
    show "hotspot_mean regs L run_object =
          (if n_bins \<le> 0 \<or> integral \<le> 0 then Inr (0, 0)
           else Inr (integral / real_of_int n_bins / L, sqrt integral / real_of_int n_bins / L))"
      by (rule region[OF a])
    assume b: "x0 \<le> x1 \<and> y0 \<le> y1 \<and> mono (GetXaxis_FindBin run_object)
                \<and> mono (GetYaxis_FindBin run_object)"
    from ordered[OF a b] show "0 < n_bins" by (rule conjunct1)
    from ordered[OF a b] show "hotspot_mean regs L run_object =
              (if integral \<le> 0 then Inr (0, 0)
               else Inr (integral / real_of_int n_bins / L, sqrt integral / real_of_int n_bins / L))"
      by (rule conjunct2)
  next
    fix rest
    assume "GetName run_object = ''VPClusterMapOn'' @ rest \<and> \<not> py_in ''VPClusterMapOn'' rest"
    then have name: "GetName run_object = ''VPClusterMapOn'' @ rest"
      and absent: "\<not> py_in ''VPClusterMapOn'' rest"
      by blast+
    have "py_replace (''VPClusterMapOn'' @ rest) ''VPClusterMapOn'' [] = rest"
      by (rule py_replace_prefix[OF _ absent]) simp
    then show "sensor_key = rest"
      unfolding key name .
  qed
qed

lemma cluster_map_sensor_key:
  "py_replace (GetName cluster_map) ''VPClusterMapOn'' '''' = ''Mod10Sens2''"
  by (simp add: hist_defs)

lemma cluster_map_bins:
  "GetXaxis_FindBin cluster_map 0 = 1" "GetXaxis_FindBin cluster_map 10 = 5"
  "GetYaxis_FindBin cluster_map 0 = 1" "GetYaxis_FindBin cluster_map 10 = 5"
  by (simp_all add: hist_defs)

lemma cluster_map_integral:
  "Integral2 cluster_map 1 5 1 5 = 100" "Integral2 cluster_map 5 1 1 5 = 20"
  by (simp_all add: hist_defs)

lemma cluster_map_axes_mono:
  "mono (GetXaxis_FindBin cluster_map)" "mono (GetYaxis_FindBin cluster_map)"
  by (simp_all add: cluster_map_def uniform_TH2_def axis_FindBin_mono)

theorem hotspot_mean_value_witness:
  "hotspot_mean example_regions 2 cluster_map = Inr (2, 0.2)
   \<and> (5 - 1 + 1) * (5 - 1 + 1) = (25::int)
   \<and> Integral2 cluster_map 1 5 1 5 = 100
   \<and> hotspot_mean Map.empty 2 cluster_map = Inr (0, 0)
   \<and> hotspot_mean [''Mod10Sens2'' \<mapsto> \<lparr>roi_x = [], roi_y = [0, 10]\<rparr>] 2 cluster_map
       = Inr (0, 0)
   \<and> hotspot_mean [''Mod10Sens2'' \<mapsto> \<lparr>roi_x = [10, 0], roi_y = [0, 10]\<rparr>] 2 cluster_map
       = Inr (0, 0)
   \<and> GetName cluster_map = ''VPClusterMapOn'' @ ''Mod10Sens2''
   \<and> \<not> py_in ''VPClusterMapOn'' ''Mod10Sens2''"
proof -
  have two_dimensional: "InheritsFromTH2 cluster_map" by (simp add: hist_defs)
  have run_length: "(0::real) < 2" by simp
  have key: "''Mod10Sens2'' = py_replace (GetName cluster_map) ''VPClusterMapOn'' ''''"
    by (simp add: cluster_map_sensor_key)
  have region: "example_regions ''Mod10Sens2'' = Some \<lparr>roi_x = [0, 10], roi_y = [0, 10]\<rparr>"
    by (simp add: example_regions_def)
  note region_case = hotspot_mean_value[OF two_dimensional run_length key,
      THEN conjunct2, THEN conjunct2, THEN conjunct1, rule_format]
  have "example_regions ''Mod10Sens2'' = Some \<lparr>roi_x = [0, 10], roi_y = [0, 10]\<rparr>
             \<and> roi_x \<lparr>roi_x = [0, 10], roi_y = [0, 10]\<rparr> = 0 # 10 # []
             \<and> roi_y \<lparr>roi_x = [0, 10], roi_y = [0, 10]\<rparr> = 0 # 10 # []
             \<and> (1::int) = GetXaxis_FindBin cluster_map 0
             \<and> (5::int) = GetXaxis_FindBin cluster_map 10
             \<and> (1::int) = GetYaxis_FindBin cluster_map 0
             \<and> (5::int) = GetYaxis_FindBin cluster_map 10
             \<and> (25::int) = (5 - 1 + 1) * (5 - 1 + 1)
             \<and> (100::real) = Integral2 cluster_map 1 5 1 5"
    by (simp add: region cluster_map_bins cluster_map_integral)
  from region_case[where regs = example_regions, OF this]
  have "(0::real) \<le> 10 \<and> (0::real) \<le> 10 \<and> mono (GetXaxis_FindBin cluster_map)
                    \<and> mono (GetYaxis_FindBin cluster_map)
                    \<longrightarrow> 0 < (25::int)
                        \<and> hotspot_mean example_regions 2 cluster_map =
                            (if (100::real) \<le> 0 then Inr (0, 0)
                             else Inr (100 / real_of_int 25 / 2, sqrt 100 / real_of_int 25 / 2))"
    by (rule conjunct2)
  then have example: "hotspot_mean example_regions 2 cluster_map = Inr (2, 0.2)"
    by (simp add: region cluster_map_bins cluster_map_integral cluster_map_axes_mono sqrt_100)
  from hotspot_mean_value[OF two_dimensional run_length key, of Map.empty]
  have unregistered: "hotspot_mean Map.empty 2 cluster_map = Inr (0, 0)"
    by simp
  from hotspot_mean_value[OF two_dimensional run_length key,
         of "[''Mod10Sens2'' \<mapsto> \<lparr>roi_x = [], roi_y = [0, 10]\<rparr>]"]
  have undefined_region:
    "hotspot_mean [''Mod10Sens2'' \<mapsto> \<lparr>roi_x = [], roi_y = [0, 10]\<rparr>] 2 cluster_map
       = Inr (0, 0)"
    by simp
  let ?reversed = "[''Mod10Sens2'' \<mapsto> \<lparr>roi_x = [10, 0], roi_y = [0, 10]\<rparr>]"
  have "?reversed ''Mod10Sens2'' = Some \<lparr>roi_x = [10, 0], roi_y = [0, 10]\<rparr>
             \<and> roi_x \<lparr>roi_x = [10, 0], roi_y = [0, 10]\<rparr> = 10 # 0 # []
             \<and> roi_y \<lparr>roi_x = [10, 0], roi_y = [0, 10]\<rparr> = 0 # 10 # []
             \<and> (5::int) = GetXaxis_FindBin cluster_map 10
             \<and> (1::int) = GetXaxis_FindBin cluster_map 0
             \<and> (1::int) = GetYaxis_FindBin cluster_map 0
             \<and> (5::int) = GetYaxis_FindBin cluster_map 10
             \<and> (- 15::int) = (1 - 5 + 1) * (5 - 1 + 1)
             \<and> (20::real) = Integral2 cluster_map 5 1 1 5"
    by (simp add: cluster_map_bins cluster_map_integral)
  from region_case[where regs = "?reversed", OF this]
  have "hotspot_mean ?reversed 2 cluster_map =
                   (if (- 15::int) \<le> 0 \<or> (20::real) \<le> 0 then Inr (0, 0)
                    else Inr (20 / real_of_int (- 15) / 2, sqrt 20 / real_of_int (- 15) / 2))"
    by (rule conjunct1)
  then have reversed: "hotspot_mean ?reversed 2 cluster_map = Inr (0, 0)"
    by (simp add: cluster_map_bins cluster_map_integral)
  have name: "GetName cluster_map = ''VPClusterMapOn'' @ ''Mod10Sens2''"
    by (simp add: hist_defs)
  have absent: "\<not> py_in ''VPClusterMapOn'' ''Mod10Sens2''"
    by simp
  from example unregistered undefined_region reversed name absent show ?thesis
    by (simp only: cluster_map_integral simp_thms) simp
qed

section \<open>The order of the admission checks\<close>

text \<open>
  In \<open>plot_pseudo_efficiencies.py\<close> a run that is too short is rejected before the
  saveset is looked for: the only events are those of the run-database file.
\<close>

lemma admission_efficiencies_too_short:
  assumes "run_info env = Some d" "info_state d \<noteq> Some ''CREATED''"
    and "info_starttime d = Some run_start" "info_endtime d = Some run_end"
    and "run_end - run_start < min_run_length"
  shows "admission_efficiencies env run =
           (if \<not> info_cached env then [RunInfoExists run, RunInfoFetch run]
            else [RunInfoExists run],
            Reject TooShort)"
  using assms
  by (simp add: admission_efficiencies_def check_run_length_eff_def require_offline_def)

text \<open>
  In \<open>plot_occupancies.py\<close> the saveset is looked for, and its creation requested,
  before the run length is computed: when the saveset stays missing the run is
  rejected for that reason, whatever its length.
\<close>

lemma admission_occupancies_saveset_first:
  assumes "run_info env = Some d" "info_state d = Some s" "s \<noteq> ''CREATED''"
    and "info_starttime d = Some run_start"
    and "\<not> saveset_exists env" "\<not> saveset_exists_after_request env"
  shows "admission_occupancies env run =
           ((if \<not> info_cached env then [RunInfoExists run, RunInfoFetch run]
             else [RunInfoExists run])
            @ [SavesetExists run, SavesetCreateRequest run, SavesetExists run],
            Reject NoData)"
  using assms
  by (simp add: admission_occupancies_def check_saveset_def require_offline_def)

text \<open>In both scripts the saveset is opened only after every other check.\<close>

lemma admission_occupancies_open_last:
  "admission_occupancies env run = (evs, a) \<Longrightarrow> SavesetOpen run \<in> set evs \<Longrightarrow>
     a = Reject PossiblyCorrupt \<or> (\<exists>run_length. a = Admit run_length)"
  by (auto simp: admission_occupancies_def check_saveset_def check_run_length_def
      open_saveset_def Let_def require_offline_def split: option.splits if_splits)

text \<open>
  Claim C3. The claim puts the run-length check before the check of the saveset file
  and its creation request. \<open>plot_pseudo_efficiencies.py\<close> does so;
  \<open>plot_occupancies.py\<close> does not: for a finished run of 100 seconds whose saveset
  is missing and cannot be created, it looks for the saveset, requests its creation,
  looks again and rejects the run for its missing data, while the other script
  rejects the run as too short without touching the saveset.
\<close>

theorem short_run_saveset_requested:
  "admission_occupancies short_run_without_saveset 7 =
     ([RunInfoExists 7, SavesetExists 7, SavesetCreateRequest 7, SavesetExists 7],
      Reject NoData)
   \<and> admission_efficiencies short_run_without_saveset 7 =
     ([RunInfoExists 7], Reject TooShort)"
  by (simp add: admission_defs short_run_without_saveset_def)

section \<open>The exit status after bad arguments\<close>

text \<open>With fewer than three arguments after the script name, or with the upper run
  number below the lower one, \<open>plot_occupancies.py\<close> prints a line and calls
  \<open>sys.exit(0)\<close>; \<open>plot_pseudo_efficiencies.py\<close> exits with status 1.\<close>

lemma check_arguments_too_few:
  "length argv < 4 \<Longrightarrow>
     check_arguments argv =
       ([''Lower and upper run number ranges must be specified, as well as the options''],
        Inl (SysExit 0))"
  by (simp add: check_arguments_def)

lemma check_arguments_reversed:
  assumes "\<not> length argv < 4" "py_int (argv ! 1) = Inr lo" "py_int (argv ! 2) = Inr hi" "hi < lo"
  shows "check_arguments argv =
           ([''The upper run number must be higher than the lower run number''],
            Inl (SysExit 0))"
  using assms by (simp add: check_arguments_def)

lemma check_arguments_eff_too_few:
  "length argv < 4 \<Longrightarrow> snd (check_arguments_eff argv) = Inl (SysExit 1)"
  by (simp add: check_arguments_eff_def usage_and_exit_def)

lemma check_arguments_eff_reversed:
  assumes "\<not> length argv < 4" "py_int (argv ! 1) = Inr lo" "py_int (argv ! 2) = Inr hi" "hi < lo"
  shows "check_arguments_eff argv =
           ([''Upper run number must be >= lower run number.''], Inl (SysExit 1))"
  using assms by (simp add: check_arguments_eff_def ebind_Inr)

lemma py_int_5: "py_int ''5'' = Inr 5"
  by (simp add: py_int_def py_strip_def is_space_def is_digit_def digit_chars_def
      digits_val_def digit_val_def)

lemma py_int_3: "py_int ''3'' = Inr 3"
  by (simp add: py_int_def py_strip_def is_space_def is_digit_def digit_chars_def
      digits_val_def digit_val_def)

text \<open>
  Claim C9. The claim asks for a non-zero exit status when arguments are missing or
  the run range is reversed. \<open>plot_occupancies.py\<close>, called without arguments or
  with the runs 5 and 3, prints its message and ends before any run is processed,
  but with exit status 0; \<open>plot_pseudo_efficiencies.py\<close> ends with status 1 on the
  same command lines.
\<close>

theorem bad_arguments_exit_status:
  "main_occupancies (\<lambda>path. ImportFailed) True (\<lambda>run. short_run_without_saveset)
     [''plot_occupancies.py'']
     = \<lparr>stdout = [''Lower and upper run number ranges must be specified, as well as the options''],
        raised = Some (SysExit 0), final_state = None, y_axis = None\<rparr>
   \<and> main_occupancies (\<lambda>path. ImportFailed) True (\<lambda>run. short_run_without_saveset)
     [''plot_occupancies.py'', ''5'', ''3'', ''velo/occupancy'']
     = \<lparr>stdout = [''The upper run number must be higher than the lower run number''],
        raised = Some (SysExit 0), final_state = None, y_axis = None\<rparr>
   \<and> exit_status (SysExit 0) = 0
   \<and> snd (check_arguments_eff [''plot_pseudo_efficiencies.py'']) = Inl (SysExit 1)
   \<and> snd (check_arguments_eff [''plot_pseudo_efficiencies.py'', ''5'', ''3'', ''velo/eff''])
     = Inl (SysExit 1)
   \<and> exit_status (SysExit 1) = 1"
proof -
  have few: "check_arguments [''plot_occupancies.py''] =
       ([''Lower and upper run number ranges must be specified, as well as the options''],
        Inl (SysExit 0))"
    by (rule check_arguments_too_few) simp
  have reversed: "check_arguments [''plot_occupancies.py'', ''5'', ''3'', ''velo/occupancy''] =
       ([''The upper run number must be higher than the lower run number''],
        Inl (SysExit 0))"
    by (rule check_arguments_reversed[where lo = 5 and hi = 3]) (simp_all add: py_int_5 py_int_3)
  have few_eff: "snd (check_arguments_eff [''plot_pseudo_efficiencies.py'']) = Inl (SysExit 1)"
    by (rule check_arguments_eff_too_few) simp
  have reversed_eff:
    "check_arguments_eff [''plot_pseudo_efficiencies.py'', ''5'', ''3'', ''velo/eff'']
       = ([''Upper run number must be >= lower run number.''], Inl (SysExit 1))"
    by (rule check_arguments_eff_reversed[where lo = 5 and hi = 3])
       (simp_all add: py_int_5 py_int_3)
  show ?thesis
    unfolding main_occupancies_def few reversed few_eff reversed_eff by simp
qed

section \<open>A run whose archive lacks a location\<close>

text \<open>The run number and the run length are appended as soon as the run is
  admitted, before the locations are looked up: a run with a missing location
  leaves its number and length behind and adds nothing to the counts and errors.\<close>

lemma process_run_location_not_found:
  assumes "admission_occupancies env run = (evs, Admit run_length)"
    and "location_not_found (Get env) (opt_locations opts)"
  shows "process_run opts regs env run st =
           (None, st\<lparr>events := events st @ evs, numbers := numbers st @ [run],
                      lengths := lengths st @ [run_length / 3600]\<rparr>)"
  using assms by (simp add: process_run_def)

lemma finished_run_admitted:
  "admission_occupancies (finished_run objects) run =
     ([RunInfoExists run, SavesetExists run, SavesetOpen run], Admit 7200)"
  by (simp add: admission_defs finished_run_def)

lemma finished_run_Get: "Get (finished_run objects) = objects"
  by (simp add: finished_run_def)

lemma extract_sample_raw_track_x:
  "extract_sample regs 2 track_x ''raw'' tc s = Inr (10, sqrt 20 / 2)"
  by (simp add: extract_sample_def hist_defs py_defs)

lemma py_int_1: "py_int ''1'' = Inr 1"
  by (simp add: py_int_def py_strip_def is_space_def is_digit_def digit_chars_def
      digits_val_def digit_val_def)

lemma py_int_2: "py_int ''2'' = Inr 2"
  by (simp add: py_int_def py_strip_def is_space_def is_digit_def digit_chars_def
      digits_val_def digit_val_def)

lemma upto_1_2: "[1..2] = [1, 2::int]"
  by (simp add: upto.simps)

text \<open>
  Claim C5. The claim has a run with a missing location leave no trace in the series.
  In the code such a run adds no count and no error, but its run number and length
  stay in \<open>runs_info\<close>. With run 1 lacking the location and run 2 holding it, the
  script ends with two run numbers and one count; the plot has two bins, the value of
  run 2 sits in the bin labelled with run 1, and the second bin is empty and
  unlabelled.
\<close>

theorem missing_location_misaligns_series:
  "run_loop (absolute_options [''Track/x''] [''raw'']) Map.empty
     (\<lambda>run. finished_run (if run = 1 then Map.empty else [''Track/x'' \<mapsto> track_x]))
     [1, 2] empty_state
     = (None, \<lparr>numbers = [1, 2], lengths = [2, 2], counts = [10], errors = [sqrt 20 / 2],
               this_sample = Some (10, sqrt 20 / 2), published = [(2, 10, sqrt 20 / 2)],
               events = [RunInfoExists 1, SavesetExists 1, SavesetOpen 1,
                         RunInfoExists 2, SavesetExists 2, SavesetOpen 2]\<rparr>)
   \<and> fill_plot \<lparr>numbers = [1, 2], lengths = [2, 2], counts = [10], errors = [sqrt 20 / 2],
               this_sample = Some (10, sqrt 20 / 2), published = [(2, 10, sqrt 20 / 2)],
               events = [RunInfoExists 1, SavesetExists 1, SavesetOpen 1,
                         RunInfoExists 2, SavesetExists 2, SavesetOpen 2]\<rparr>
     = Inr \<lparr>bin_content = [10, 0], bin_error = [sqrt 20 / 2, 0], bin_label = [''1'', '''']\<rparr>
   \<and> main_occupancies
       (\<lambda>path. Loaded (absolute_options [''Track/x''] [''raw'']) Map.empty) True
       (\<lambda>run. finished_run (if run = 1 then Map.empty else [''Track/x'' \<mapsto> track_x]))
       [''plot_occupancies.py'', ''1'', ''2'', ''tracking/track_x'']
     = \<lparr>stdout = [], raised = None,
        final_state =
          Some \<lparr>numbers = [1, 2], lengths = [2, 2], counts = [10], errors = [sqrt 20 / 2],
                this_sample = Some (10, sqrt 20 / 2), published = [(2, 10, sqrt 20 / 2)],
                events = [RunInfoExists 1, SavesetExists 1, SavesetOpen 1,
                          RunInfoExists 2, SavesetExists 2, SavesetOpen 2]\<rparr>,
        y_axis = Some (RangeUser 0 15)\<rparr>"
proof -
  let ?opts = "absolute_options [''Track/x''] [''raw'']"
  let ?st1 = "\<lparr>numbers = [1], lengths = [2], counts = [], errors = [],
               this_sample = None, published = [],
               events = [RunInfoExists 1, SavesetExists 1, SavesetOpen 1]\<rparr>"
  let ?st2 = "\<lparr>numbers = [1, 2], lengths = [2, 2], counts = [10], errors = [sqrt 20 / 2],
               this_sample = Some (10, sqrt 20 / 2), published = [(2, 10, sqrt 20 / 2)],
               events = [RunInfoExists 1, SavesetExists 1, SavesetOpen 1,
                         RunInfoExists 2, SavesetExists 2, SavesetOpen 2]\<rparr>"
  have run1: "process_run ?opts Map.empty (finished_run Map.empty) 1 empty_state = (None, ?st1)"
    by (simp add: process_run_location_not_found[OF finished_run_admitted]
        finished_run_Get absolute_options_def empty_state_def)
  have run2: "process_run ?opts Map.empty (finished_run [''Track/x'' \<mapsto> track_x]) 2 ?st1
                = (None, ?st2)"
    by (simp add: process_run_def finished_run_admitted finished_run_Get absolute_options_def
        py_last_def py_index_def ebind_Inr extract_sample_raw_track_x accumulate_def
        publish_def publish_to_dqdb_def)
  have loop: "run_loop ?opts Map.empty
     (\<lambda>run. finished_run (if run = 1 then Map.empty else [''Track/x'' \<mapsto> track_x]))
     [1, 2] empty_state = (None, ?st2)"
    by (simp add: run1 run2)
  have fill: "fill_plot ?st2
     = Inr \<lparr>bin_content = [10, 0], bin_error = [sqrt 20 / 2, 0], bin_label = [''1'', '''']\<rparr>"
    by (simp add: fill_plot_def TH1F_def py_index_def ebind_Inr str_int_def str_nat.simps
        digit_chars_def)
  have arguments:
    "check_arguments [''plot_occupancies.py'', ''1'', ''2'', ''tracking/track_x'']
       = ([], Inr \<lparr>run_lower = 1, run_upper = 2, options_path = ''tracking/track_x'',
                     report_type = ''unspecified''\<rparr>)"
    by (simp add: check_arguments_def py_int_1 py_int_2)
  have initial: "initial_state ?opts = empty_state"
    by (simp add: initial_state_def absolute_options_def empty_state_def)
  have axis: "y_axis_range (opt_y_range ?opts) [10, 0] = Inr (RangeUser 0 15)"
    by (simp add: absolute_options_def y_axis_range_def py_truediv_def ebind_Inr)
  have script: "main_occupancies (\<lambda>path. Loaded ?opts Map.empty) True
       (\<lambda>run. finished_run (if run = 1 then Map.empty else [''Track/x'' \<mapsto> track_x]))
       [''plot_occupancies.py'', ''1'', ''2'', ''tracking/track_x'']
     = \<lparr>stdout = [], raised = None, final_state = Some ?st2,
        y_axis = Some (RangeUser 0 15)\<rparr>"
    unfolding main_occupancies_def arguments
    by (simp add: upto_1_2 initial loop fill ebind_Inr axis del: run_loop.simps)
  from loop fill script show ?thesis by (simp only: simp_thms)
qed

section \<open>One-dimensional objects and the directional methods\<close>

lemma entries_selection_one_dimensional:
  assumes "\<not> InheritsFromTH2 h"
  shows "selection_type \<in> set quadrant_methods \<Longrightarrow> entries_selection h selection_type = Inl (SysExit 0)"
    and "entries_selection h ''negative'' = Inr (Integral1 h 1 (FindBin0 h))"
    and "entries_selection h ''positive'' = Inr (Integral1 h (FindBin0 h) (GetNbinsX h))"
  using assms by (simp_all add: entries_selection_def quadrant_methods_def)

lemma extract_sample_quadrant_one_dimensional:
  assumes "\<not> InheritsFromTH2 h" "selection_type \<in> set quadrant_methods"
  shows "extract_sample regs L h selection_type tc s = Inl (SysExit 0)"
  using assms
  by (simp add: extract_sample_directional quadrant_is_directional
      entries_selection_one_dimensional ebind_Inl)

text \<open>A quadrant method on a one-dimensional object ends the iteration of the run
  loop with \<open>sys.exit(0)\<close>, after the run number and the run length were appended.\<close>

lemma process_run_quadrant_one_dimensional:
  assumes admitted: "admission_occupancies env run = (evs, Admit run_length)"
    and found: "\<not> location_not_found (Get env) (opt_locations opts)"
    and locations: "opt_locations opts = earlier @ location # later"
    and object: "Get env location = Some run_object"
    and one_dimensional: "\<not> InheritsFromTH2 run_object"
    and method_at: "py_index (opt_method opts) (length earlier) = Inr m"
    and quadrant: "m \<in> set quadrant_methods"
    and earlier: "extract_loop regs (run_length / 3600) (Get env) (opt_method opts) 0 earlier
                    ([], [], this_sample st) = Inr acc"
  shows "process_run opts regs env run st =
           (Some (SysExit 0),
            st\<lparr>events := events st @ evs, numbers := numbers st @ [run],
               lengths := lengths st @ [run_length / 3600]\<rparr>)"
proof -
  obtain tc te s where acc: "acc = (tc, te, s)" by (cases acc)
  have here: "extract_loop regs (run_length / 3600) (Get env) (opt_method opts)
                (length earlier) (location # later) (tc, te, s) = Inl (SysExit 0)"
    using object method_at
    by (simp add: ebind_Inr ebind_Inl
        extract_sample_quadrant_one_dimensional[OF one_dimensional quadrant])
  have "extract_loop regs (run_length / 3600) (Get env) (opt_method opts) 0
          (earlier @ location # later) ([], [], this_sample st)
        = ebind (extract_loop regs (run_length / 3600) (Get env) (opt_method opts) 0 earlier
                   ([], [], this_sample st))
            (\<lambda>acc'. extract_loop regs (run_length / 3600) (Get env) (opt_method opts)
                      (0 + length earlier) (location # later) acc')"
    by (rule extract_loop_append)
  also have "\<dots> = extract_loop regs (run_length / 3600) (Get env) (opt_method opts)
                      (length earlier) (location # later) (tc, te, s)"
    by (simp only: earlier acc ebind_Inr add_0)
  also note here
  finally have "extract_loop regs (run_length / 3600) (Get env) (opt_method opts) 0
          (earlier @ location # later) ([], [], this_sample st) = Inl (SysExit 0)" .
  with admitted found show ?thesis
    by (simp add: process_run_def locations py_last_snoc)
qed

text \<open>
  Claim C4, as the code has it. For a one-dimensional object, \<open>entries_selection\<close>
  with \<open>quadrant1\<close>, \<dots>, \<open>quadrant4\<close> returns no value: it calls
  \<open>sys.exit(0)\<close>. With \<open>negative\<close> and \<open>positive\<close> it returns a value: the
  integral from bin 1 to the bin of zero, and from the bin of zero to the last bin.
  The exit of a quadrant method ends the whole script: the run loop stops in the run
  in which it happens, whose number and length are already recorded, and no later
  run is processed.
\<close>

theorem one_dimensional_selection:
  assumes one_dimensional: "\<not> InheritsFromTH2 run_object"
  shows "(\<forall>selection_type. selection_type \<in> set quadrant_methods
            \<longrightarrow> entries_selection run_object selection_type = Inl (SysExit 0))
       \<and> entries_selection run_object ''negative''
           = Inr (Integral1 run_object 1 (FindBin0 run_object))
       \<and> entries_selection run_object ''positive''
           = Inr (Integral1 run_object (FindBin0 run_object) (GetNbinsX run_object))
       \<and> (\<forall>opts regs world run rest st evs run_length earlier location later selection_type acc.
            admission_occupancies (world run) run = (evs, Admit run_length)
            \<and> \<not> location_not_found (Get (world run)) (opt_locations opts)
            \<and> opt_locations opts = earlier @ location # later
            \<and> Get (world run) location = Some run_object
            \<and> py_index (opt_method opts) (length earlier) = Inr selection_type
            \<and> selection_type \<in> set quadrant_methods
            \<and> extract_loop regs (run_length / 3600) (Get (world run)) (opt_method opts) 0
                 earlier ([], [], this_sample st) = Inr acc
            \<longrightarrow> run_loop opts regs world (run # rest) st =
                  (Some (SysExit 0),
                   st\<lparr>events := events st @ evs, numbers := numbers st @ [run],
                      lengths := lengths st @ [run_length / 3600]\<rparr>))"
proof (intro conjI allI impI)
  fix selection_type
  assume "selection_type \<in> set quadrant_methods"
  then show "entries_selection run_object selection_type = Inl (SysExit 0)"
    by (rule entries_selection_one_dimensional(1)[OF one_dimensional])
next
  show "entries_selection run_object ''negative''
          = Inr (Integral1 run_object 1 (FindBin0 run_object))"
    by (rule entries_selection_one_dimensional(2)[OF one_dimensional])
next
  show "entries_selection run_object ''positive''
          = Inr (Integral1 run_object (FindBin0 run_object) (GetNbinsX run_object))"
    by (rule entries_selection_one_dimensional(3)[OF one_dimensional])
next
  fix opts :: options and regs :: regions and world :: "int \<Rightarrow> run_env" and run :: int
    and rest :: "int list" and st :: pipeline_state and evs run_length earlier location later
    and selection_type acc
  assume a: "admission_occupancies (world run) run = (evs, Admit run_length)
            \<and> \<not> location_not_found (Get (world run)) (opt_locations opts)
            \<and> opt_locations opts = earlier @ location # later
            \<and> Get (world run) location = Some run_object
            \<and> py_index (opt_method opts) (length earlier) = Inr selection_type
            \<and> selection_type \<in> set quadrant_methods
            \<and> extract_loop regs (run_length / 3600) (Get (world run)) (opt_method opts) 0
                 earlier ([], [], this_sample st) = Inr acc"
  have "process_run opts regs (world run) run st =
          (Some (SysExit 0),
           st\<lparr>events := events st @ evs, numbers := numbers st @ [run],
              lengths := lengths st @ [run_length / 3600]\<rparr>)"
    by (rule process_run_quadrant_one_dimensional[where earlier = earlier
          and location = location and later = later and run_object = run_object
          and m = selection_type and acc = acc])
       (use a one_dimensional in blast)+
  then show "run_loop opts regs world (run # rest) st =
                  (Some (SysExit 0),
                   st\<lparr>events := events st @ evs, numbers := numbers st @ [run],
                      lengths := lengths st @ [run_length / 3600]\<rparr>)"
    by (rule run_loop_abort)
qed

lemma track_x_one_dimensional: "\<not> InheritsFromTH2 track_x"
  by (simp add: hist_defs)

lemma track_x_integrals:
  "Integral1 track_x 1 (FindBin0 track_x) = 12"
  "Integral1 track_x (FindBin0 track_x) (GetNbinsX track_x) = 10"
  by (simp_all add: hist_defs)

theorem one_dimensional_selection_witness:
  "entries_selection track_x ''quadrant3'' = Inl (SysExit 0)
   \<and> entries_selection track_x ''negative'' = Inr 12
   \<and> entries_selection track_x ''positive'' = Inr 10
   \<and> run_loop (absolute_options [''Track/x''] [''quadrant1'']) Map.empty
       (\<lambda>run. finished_run [''Track/x'' \<mapsto> track_x]) (1 # [2]) empty_state
     = (Some (SysExit 0),
        empty_state\<lparr>events := events empty_state @
                                 [RunInfoExists 1, SavesetExists 1, SavesetOpen 1],
                    numbers := numbers empty_state @ [1],
                    lengths := lengths empty_state @ [7200 / 3600]\<rparr>)"
proof -
  note instance1 = one_dimensional_selection[OF track_x_one_dimensional]
  have quadrant3: "''quadrant3'' \<in> set quadrant_methods"
    by (simp add: quadrant_methods_def)
  from instance1 quadrant3 have q: "entries_selection track_x ''quadrant3'' = Inl (SysExit 0)"
    by (simp only: simp_thms)
  from instance1 have n: "entries_selection track_x ''negative'' = Inr 12"
    by (simp only: track_x_integrals)
  from instance1 have p: "entries_selection track_x ''positive'' = Inr 10"
    by (simp only: track_x_integrals)
  let ?opts = "absolute_options [''Track/x''] [''quadrant1'']"
  let ?world = "\<lambda>run::int. finished_run [''Track/x'' \<mapsto> track_x]"
  have hyps: "admission_occupancies (?world 1) 1
                = ([RunInfoExists 1, SavesetExists 1, SavesetOpen 1], Admit 7200)
            \<and> \<not> location_not_found (Get (?world 1)) (opt_locations ?opts)
            \<and> opt_locations ?opts = [] @ ''Track/x'' # []
            \<and> Get (?world 1) ''Track/x'' = Some track_x
            \<and> py_index (opt_method ?opts) (length ([]::string list)) = Inr ''quadrant1''
            \<and> ''quadrant1'' \<in> set quadrant_methods
            \<and> extract_loop Map.empty (7200 / 3600) (Get (?world 1)) (opt_method ?opts) 0
                 [] ([], [], this_sample empty_state) = Inr ([], [], this_sample empty_state)"
    by (simp add: finished_run_admitted finished_run_Get absolute_options_def py_index_def
        quadrant_methods_def)
  note pipeline = instance1[THEN conjunct2, THEN conjunct2, THEN conjunct2, rule_format]
  have "run_loop ?opts Map.empty ?world (1 # [2]) empty_state
     = (Some (SysExit 0),
        empty_state\<lparr>events := events empty_state @
                                 [RunInfoExists 1, SavesetExists 1, SavesetOpen 1],
                    numbers := numbers empty_state @ [1],
                    lengths := lengths empty_state @ [7200 / 3600]\<rparr>)"
    by (rule pipeline[where world = ?world and opts = ?opts and earlier = "[]"
          and location = "''Track/x''" and later = "[]" and selection_type = "''quadrant1''"
          and acc = "([], [], this_sample empty_state)", OF hyps])
  with q n p show ?thesis by (simp only: simp_thms)
qed

text \<open>
  Claim C4, as it is stated, fails: for the one-dimensional histogram \<open>track_x\<close> the
  methods \<open>negative\<close> and \<open>positive\<close> return values, and when a quadrant method
  meets it in run 1 of the runs 1 and 2, the script ends there: run 2 is never
  processed.
\<close>

theorem one_dimensional_selection_counterexample:
  "\<not> InheritsFromTH2 track_x
   \<and> entries_selection track_x ''negative'' = Inr 12
   \<and> entries_selection track_x ''positive'' = Inr 10
   \<and> run_loop (absolute_options [''Track/x''] [''quadrant1'']) Map.empty
       (\<lambda>run. finished_run [''Track/x'' \<mapsto> track_x]) [1, 2] empty_state
     = (Some (SysExit 0),
        \<lparr>numbers = [1], lengths = [2], counts = [], errors = [], this_sample = None,
         published = [], events = [RunInfoExists 1, SavesetExists 1, SavesetOpen 1]\<rparr>)"
proof -
  have n: "entries_selection track_x ''negative'' = Inr 12"
    by (simp add: entries_selection_def quadrant_methods_def hist_defs)
  have p: "entries_selection track_x ''positive'' = Inr 10"
    by (simp add: entries_selection_def quadrant_methods_def hist_defs)
  have q: "extract_sample Map.empty 2 track_x ''quadrant1'' [] None = Inl (SysExit 0)"
    by (simp add: extract_sample_def directional_methods_def entries_selection_def
        quadrant_methods_def ebind_Inl track_x_one_dimensional)
  have run1: "process_run (absolute_options [''Track/x''] [''quadrant1'']) Map.empty
                (finished_run [''Track/x'' \<mapsto> track_x]) 1 empty_state
     = (Some (SysExit 0),
        \<lparr>numbers = [1], lengths = [2], counts = [], errors = [], this_sample = None,
         published = [], events = [RunInfoExists 1, SavesetExists 1, SavesetOpen 1]\<rparr>)"
    by (simp add: process_run_def finished_run_admitted finished_run_Get absolute_options_def
        empty_state_def py_last_def py_index_def ebind_Inr ebind_Inl q)
  from n p run1 track_x_one_dimensional show ?thesis by simp
qed

end
